theory Spec2Isabelle
  imports Complex_Main "HOL-Library.AList"
begin

section \<open>Values, errors and the layout\<close>

text \<open>
  The evaluator of \<^verbatim>\<open>src/src/evaluator.py\<close> receives an action log decoded from JSON.
  A JSON value is a \<open>pyval\<close>; Python's \<open>int\<close> and \<open>float\<close> are both \<open>PNum\<close>, an exact
  real (floating-point rounding, infinities and NaN are outside the model; an \<open>int\<close> too
  large for a double is refused where the code calls \<^verbatim>\<open>float\<close> on it, and other
  arithmetic is exact). A dictionary is an association list with distinct keys, read with
  \<open>map_of\<close>.
\<close>

datatype pyval =
    PNone
  | PBool bool
  | PNum real
  | PStr string
  | PList "pyval list"
  | PDict "(string \<times> pyval) list"

datatype py_error = AttributeError | TypeError | ValueError | ZeroDivisionError | OverflowError

type_synonym action = "(string \<times> pyval) list"

text \<open>
  The attributes \<^verbatim>\<open>__init__\<close> reads from the layout descriptor. \<open>tool_positions\<close> is a
  dictionary in insertion order (its keys are distinct), \<open>color_positions\<close> a list of
  \<open>(x, y, hex)\<close>.
\<close>

record evaluator =
  canvas_width :: real
  canvas_height :: real
  canvas_offset_x :: real
  canvas_offset_y :: real
  color_positions :: "(real \<times> real \<times> string) list"
  tool_positions :: "(string \<times> real \<times> real) list"
  tolerance :: real

definition ebind :: "py_error + 'a \<Rightarrow> ('a \<Rightarrow> py_error + 'b) \<Rightarrow> py_error + 'b" where
  "ebind m f = (case m of Inl e \<Rightarrow> Inl e | Inr v \<Rightarrow> f v)"

text \<open>\<^verbatim>\<open>key in action\<close> is \<open>aget a key \<noteq> None\<close>; \<^verbatim>\<open>action.get(key)\<close> and
  \<^verbatim>\<open>action.get(key, 0)\<close> are \<open>get_none\<close> and \<open>get_zero\<close>.\<close>

definition aget :: "action \<Rightarrow> string \<Rightarrow> pyval option" where
  "aget a k = map_of a k"

definition get_none :: "action \<Rightarrow> string \<Rightarrow> pyval" where
  "get_none a k = (case aget a k of Some v \<Rightarrow> v | None \<Rightarrow> PNone)"

definition get_zero :: "action \<Rightarrow> string \<Rightarrow> pyval" where
  "get_zero a k = (case aget a k of Some v \<Rightarrow> v | None \<Rightarrow> PNum 0)"

text \<open>\<^verbatim>\<open>action.get("action") == name\<close>: a string equals only the same string.\<close>

definition act_is :: "action \<Rightarrow> string \<Rightarrow> bool" where
  "act_is a name \<longleftrightarrow> aget a ''action'' = Some (PStr name)"

definition has_xy :: "action \<Rightarrow> bool" where
  "has_xy a \<longleftrightarrow> aget a ''x'' \<noteq> None \<and> aget a ''y'' \<noteq> None"

text \<open>Arithmetic and ordering on a value: numbers and booleans take part, everything
  else raises \<^verbatim>\<open>TypeError\<close>.\<close>

fun py_num :: "pyval \<Rightarrow> py_error + real" where
  "py_num (PNum r) = Inr r"
| "py_num (PBool b) = Inr (if b then 1 else 0)"
| "py_num PNone = Inl TypeError"
| "py_num (PStr s) = Inl TypeError"
| "py_num (PList l) = Inl TypeError"
| "py_num (PDict d) = Inl TypeError"

text \<open>
  \<^verbatim>\<open>float(v)\<close>. A number whose magnitude reaches \<open>float_limit\<close> is an \<^verbatim>\<open>int\<close> that rounds
  beyond the largest double, and \<^verbatim>\<open>float\<close> raises \<^verbatim>\<open>OverflowError\<close> on it. Parsing a string
  is Python's own; it is the parameter \<open>sf\<close> (\<open>None\<close> where \<^verbatim>\<open>float\<close> raises
  \<^verbatim>\<open>ValueError\<close>).
\<close>

definition float_limit :: real where
  "float_limit = 2 ^ 1024 - 2 ^ 970"

fun py_float :: "(string \<Rightarrow> real option) \<Rightarrow> pyval \<Rightarrow> py_error + real" where
  "py_float sf (PNum r) =
     (if - float_limit < r \<and> r < float_limit then Inr r else Inl OverflowError)"
| "py_float sf (PBool b) = Inr (if b then 1 else 0)"
| "py_float sf (PStr s) = (case sf s of Some r \<Rightarrow> Inr r | None \<Rightarrow> Inl ValueError)"
| "py_float sf PNone = Inl TypeError"
| "py_float sf (PList l) = Inl TypeError"
| "py_float sf (PDict d) = Inl TypeError"

text \<open>\<^verbatim>\<open>int(v)\<close> truncates towards zero; \<^verbatim>\<open>round(v, n)\<close> rounds to \<open>n\<close> decimals,
  ties to the even neighbour.\<close>

definition py_int :: "real \<Rightarrow> int" where
  "py_int v = (if 0 \<le> v then \<lfloor>v\<rfloor> else \<lceil>v\<rceil>)"

definition py_round :: "nat \<Rightarrow> real \<Rightarrow> real" where
  "py_round n v =
     (let y = v * 10 ^ n; f = \<lfloor>y\<rfloor>; d = y - of_int f
      in of_int (if d < 1 / 2 then f else if 1 / 2 < d then f + 1
                 else if even f then f else f + 1) / 10 ^ n)"

definition py_div :: "real \<Rightarrow> real \<Rightarrow> py_error + real" where
  "py_div a b = (if b = 0 then Inl ZeroDivisionError else Inr (a / b))"

section \<open>Diagnostics\<close>

text \<open>
  An error or warning entry keeps its \<^verbatim>\<open>type\<close>, its \<^verbatim>\<open>index\<close> (absent on warnings) and
  its \<^verbatim>\<open>action_detail\<close>. The message text is kept as its parts (which message, the values
  formatted into it, the problem lines and the surrounding actions), not rendered.
\<close>

datatype problem =
    XNegative | XExceedsScreen | YNegative | YExceedsScreen
  | LeftOfCanvas | RightOfCanvas | AboveCanvas | BelowCanvas

type_synonym context_line = "nat \<times> pyval \<times> (pyval \<times> pyval) option \<times> bool"

datatype message =
    ActionsMustBeList
  | MissingActionField
  | RequiresCoordinates pyval
  | UnknownActionType pyval
  | InvalidCoordinateTypes nat pyval pyval
  | OutOfScreenBounds nat pyval real real "problem list" "context_line list"
  | OutsideCanvasArea nat pyval real real "problem list" "context_line list"
  | HighActionCount nat
  | ConsecutiveMoveTo nat
  | UnmatchedMouse nat nat

datatype detail = DetailName pyval | DetailCall pyval real real

record diag =
  dtype :: string
  dindex :: "int option"
  dmessage :: message
  daction_detail :: "detail option"

section \<open>Action stream validator\<close>

text \<open>\<^verbatim>\<open>_count_actions\<close>: \<^verbatim>\<open>action.get\<close> needs a dictionary, and \<^verbatim>\<open>action_type in counts\<close>
  hashes the value, which a list or a dictionary refuses.\<close>

definition counts0 :: "(string \<times> nat) list" where
  "counts0 = [(''moveTo'', 0), (''click'', 0), (''mouseDown'', 0), (''mouseUp'', 0),
              (''unknown'', 0)]"

definition bump :: "(string \<times> nat) list \<Rightarrow> string \<Rightarrow> (string \<times> nat) list" where
  "bump counts k = AList.update k (case map_of counts k of Some n \<Rightarrow> Suc n | None \<Rightarrow> 1) counts"

fun count_actions_from :: "(string \<times> nat) list \<Rightarrow> pyval list \<Rightarrow> py_error + (string \<times> nat) list" where
  "count_actions_from counts [] = Inr counts"
| "count_actions_from counts (PDict d # rest) =
     (case (case map_of d ''action'' of Some v \<Rightarrow> v | None \<Rightarrow> PStr ''unknown'') of
        PList l \<Rightarrow> Inl TypeError
      | PDict e \<Rightarrow> Inl TypeError
      | PStr s \<Rightarrow>
          count_actions_from
            (if map_of counts s \<noteq> None then bump counts s else bump counts ''unknown'') rest
      | _ \<Rightarrow> count_actions_from (bump counts ''unknown'') rest)"
| "count_actions_from counts (_ # rest) = Inl AttributeError"

definition count_actions :: "pyval list \<Rightarrow> py_error + (string \<times> nat) list" where
  "count_actions actions = count_actions_from counts0 actions"

text \<open>Every later pass runs after \<^verbatim>\<open>_count_actions\<close> has returned, so on dictionaries only.\<close>

fun dict_items :: "pyval \<Rightarrow> action" where
  "dict_items (PDict d) = d"
| "dict_items _ = []"

text \<open>\<^verbatim>\<open>_check_syntax_errors\<close>, one loop iteration.\<close>

definition syntax_errors_at :: "nat \<Rightarrow> action \<Rightarrow> diag list" where
  "syntax_errors_at i a =
     (case aget a ''action'' of
        None \<Rightarrow> [\<lparr>dtype = ''SYNTAX_ERROR'', dindex = Some (int i),
                  dmessage = MissingActionField, daction_detail = None\<rparr>]
      | Some t \<Rightarrow>
          (if t = PStr ''moveTo'' \<and> (aget a ''x'' = None \<or> aget a ''y'' = None)
           then [\<lparr>dtype = ''SYNTAX_ERROR'', dindex = Some (int i),
                  dmessage = RequiresCoordinates t, daction_detail = None\<rparr>]
           else []) @
          (if t \<notin> set [PStr ''moveTo'', PStr ''click'', PStr ''mouseDown'', PStr ''mouseUp'']
           then [\<lparr>dtype = ''SYNTAX_ERROR'', dindex = Some (int i),
                  dmessage = UnknownActionType t, daction_detail = None\<rparr>]
           else []))"

definition check_syntax_errors :: "action list \<Rightarrow> diag list" where
  "check_syntax_errors actions =
     concat (map (\<lambda>(i, a). syntax_errors_at i a) (enumerate 0 actions))"

text \<open>\<^verbatim>\<open>_get_action_sequence_context\<close> with \<^verbatim>\<open>context_range = 2\<close>.\<close>

definition get_action_sequence_context :: "nat \<Rightarrow> action list \<Rightarrow> context_line list" where
  "get_action_sequence_context index actions =
     map (\<lambda>i. (i, get_none (actions ! i) ''action'',
                (case (aget (actions ! i) ''x'', aget (actions ! i) ''y'') of
                   (Some vx, Some vy) \<Rightarrow> Some (vx, vy) | _ \<Rightarrow> None),
                i = index))
       [(if index < 2 then 0 else index - 2) ..< min (length actions) (index + 3)]"

text \<open>\<^verbatim>\<open>_build_coordinate_error_context\<close>, its two branches.\<close>

definition screen_problems :: "real \<Rightarrow> real \<Rightarrow> problem list" where
  "screen_problems x y =
     (if x < 0 then [XNegative] else if 1500 < x then [XExceedsScreen] else []) @
     (if y < 0 then [YNegative] else if 900 < y then [YExceedsScreen] else [])"

definition canvas_problems :: "evaluator \<Rightarrow> real \<Rightarrow> real \<Rightarrow> problem list" where
  "canvas_problems ev x y =
     (let canvas_x = x - canvas_offset_x ev; canvas_y = y - canvas_offset_y ev
      in (if canvas_x < 0 then [LeftOfCanvas]
          else if canvas_width ev < canvas_x then [RightOfCanvas] else []) @
         (if canvas_y < 0 then [AboveCanvas]
          else if canvas_height ev < canvas_y then [BelowCanvas] else []))"

definition screen_bounds_message :: "action \<Rightarrow> nat \<Rightarrow> real \<Rightarrow> real \<Rightarrow> action list \<Rightarrow> message" where
  "screen_bounds_message a index x y actions =
     OutOfScreenBounds index
       (case aget a ''action'' of Some v \<Rightarrow> v | None \<Rightarrow> PStr ''unknown'') x y
       (screen_problems x y) (get_action_sequence_context index actions)"

definition canvas_bounds_message ::
  "evaluator \<Rightarrow> action \<Rightarrow> nat \<Rightarrow> real \<Rightarrow> real \<Rightarrow> action list \<Rightarrow> message" where
  "canvas_bounds_message ev a index x y actions =
     OutsideCanvasArea index
       (case aget a ''action'' of Some v \<Rightarrow> v | None \<Rightarrow> PStr ''unknown'') x y
       (canvas_problems ev x y) (get_action_sequence_context index actions)"

text \<open>\<^verbatim>\<open>_check_coordinate_errors\<close>, one loop iteration: the \<^verbatim>\<open>try\<close> around the two
  \<^verbatim>\<open>float\<close> calls catches \<^verbatim>\<open>ValueError\<close> and \<^verbatim>\<open>TypeError\<close>, and nothing else: an
  \<^verbatim>\<open>OverflowError\<close> leaves the method. \<^verbatim>\<open>y\<close> is converted only once \<^verbatim>\<open>x\<close> has been.\<close>

definition screen_bounds_error :: "action list \<Rightarrow> nat \<Rightarrow> action \<Rightarrow> real \<Rightarrow> real \<Rightarrow> diag" where
  "screen_bounds_error actions i a x y =
     \<lparr>dtype = ''COORDINATE_ERROR'', dindex = Some (int i),
      dmessage = screen_bounds_message a i x y actions,
      daction_detail = Some (DetailCall (get_none a ''action'') x y)\<rparr>"

definition canvas_bounds_error ::
  "evaluator \<Rightarrow> action list \<Rightarrow> nat \<Rightarrow> action \<Rightarrow> real \<Rightarrow> real \<Rightarrow> diag" where
  "canvas_bounds_error ev actions i a x y =
     \<lparr>dtype = ''COORDINATE_ERROR'', dindex = Some (int i),
      dmessage = canvas_bounds_message ev a i x y actions,
      daction_detail = Some (DetailCall (PStr ''mouseDown'') x y)\<rparr>"

definition invalid_coordinates_error :: "nat \<Rightarrow> action \<Rightarrow> pyval \<Rightarrow> pyval \<Rightarrow> diag" where
  "invalid_coordinates_error i a vx vy =
     \<lparr>dtype = ''SYNTAX_ERROR'', dindex = Some (int i),
      dmessage = InvalidCoordinateTypes i vx vy,
      daction_detail = Some (DetailName (get_none a ''action''))\<rparr>"

definition bounds_errors :: "evaluator \<Rightarrow> action list \<Rightarrow> nat \<Rightarrow> action \<Rightarrow> real \<Rightarrow> real \<Rightarrow> diag list" where
  "bounds_errors ev actions i a x y =
     (if x < 0 \<or> 1500 < x \<or> y < 0 \<or> 900 < y
      then [screen_bounds_error actions i a x y] else []) @
     (if act_is a ''mouseDown'' \<and>
         (x - canvas_offset_x ev < 0 \<or> canvas_width ev < x - canvas_offset_x ev \<or>
          y - canvas_offset_y ev < 0 \<or> canvas_height ev < y - canvas_offset_y ev)
      then [canvas_bounds_error ev actions i a x y] else [])"

definition coordinate_errors_at ::
  "(string \<Rightarrow> real option) \<Rightarrow> evaluator \<Rightarrow> action list \<Rightarrow> nat \<Rightarrow> action \<Rightarrow>
   py_error + diag list" where
  "coordinate_errors_at sf ev actions i a =
     (case (aget a ''x'', aget a ''y'') of
        (Some vx, Some vy) \<Rightarrow>
          (case py_float sf vx of
             Inl OverflowError \<Rightarrow> Inl OverflowError
           | Inl e \<Rightarrow> Inr [invalid_coordinates_error i a vx vy]
           | Inr x \<Rightarrow>
               (case py_float sf vy of
                  Inl OverflowError \<Rightarrow> Inl OverflowError
                | Inl e \<Rightarrow> Inr [invalid_coordinates_error i a vx vy]
                | Inr y \<Rightarrow> Inr (bounds_errors ev actions i a x y)))
      | _ \<Rightarrow> Inr [])"

fun coordinate_errors_from ::
  "(string \<Rightarrow> real option) \<Rightarrow> evaluator \<Rightarrow> action list \<Rightarrow> nat \<Rightarrow> action list \<Rightarrow>
   py_error + diag list" where
  "coordinate_errors_from sf ev actions i [] = Inr []"
| "coordinate_errors_from sf ev actions i (a # rest) =
     (case coordinate_errors_at sf ev actions i a of
        Inl e \<Rightarrow> Inl e
      | Inr es \<Rightarrow>
          (case coordinate_errors_from sf ev actions (Suc i) rest of
             Inl e \<Rightarrow> Inl e
           | Inr later \<Rightarrow> Inr (es @ later)))"

definition check_coordinate_errors ::
  "(string \<Rightarrow> real option) \<Rightarrow> evaluator \<Rightarrow> action list \<Rightarrow> py_error + diag list" where
  "check_coordinate_errors sf ev actions = coordinate_errors_from sf ev actions 0 actions"

text \<open>\<^verbatim>\<open>_check_efficiency_warnings\<close>. The scan for three \<^verbatim>\<open>moveTo\<close> in a row stops at
  the first one it finds.\<close>

fun first_triple_moveTo :: "nat \<Rightarrow> action list \<Rightarrow> nat option" where
  "first_triple_moveTo i (a # b # c # rest) =
     (if act_is a ''moveTo'' \<and> act_is b ''moveTo'' \<and> act_is c ''moveTo'' then Some i
      else first_triple_moveTo (Suc i) (b # c # rest))"
| "first_triple_moveTo i _ = None"

definition check_efficiency_warnings :: "action list \<Rightarrow> diag list" where
  "check_efficiency_warnings actions =
     (if 1000 < length actions
      then [\<lparr>dtype = ''EFFICIENCY_WARNING'', dindex = None,
             dmessage = HighActionCount (length actions), daction_detail = None\<rparr>]
      else []) @
     (case first_triple_moveTo 0 actions of
        Some i \<Rightarrow> [\<lparr>dtype = ''EFFICIENCY_WARNING'', dindex = None,
                    dmessage = ConsecutiveMoveTo i, daction_detail = None\<rparr>]
      | None \<Rightarrow> []) @
     (let down_count = length (filter (\<lambda>a. act_is a ''mouseDown'') actions);
          up_count = length (filter (\<lambda>a. act_is a ''mouseUp'') actions)
      in if down_count \<noteq> up_count
         then [\<lparr>dtype = ''LOGIC_ERROR'', dindex = None,
                dmessage = UnmatchedMouse down_count up_count, daction_detail = None\<rparr>]
         else [])"

section \<open>Spatial analyzer\<close>

text \<open>The test \<^verbatim>\<open>abs(x - tx) < 40 and abs(y - ty) < 40\<close>: \<^verbatim>\<open>y\<close> is touched only when \<^verbatim>\<open>x\<close>
  is near. \<open>first_tool_hit\<close> is the scan over the tool table that stops at the first
  button hit.\<close>

definition near_tool :: "pyval \<Rightarrow> pyval \<Rightarrow> real \<times> real \<Rightarrow> py_error + bool" where
  "near_tool x y t =
     ebind (py_num x) (\<lambda>xr. if \<bar>xr - fst t\<bar> < 40
                             then ebind (py_num y) (\<lambda>yr. Inr (\<bar>yr - snd t\<bar> < 40))
                             else Inr False)"

fun first_tool_hit :: "pyval \<Rightarrow> pyval \<Rightarrow> (string \<times> real \<times> real) list \<Rightarrow> py_error + string option" where
  "first_tool_hit x y [] = Inr None"
| "first_tool_hit x y ((name, t) # ts) =
     (case near_tool x y t of
        Inl e \<Rightarrow> Inl e
      | Inr b \<Rightarrow> if b then Inr (Some name) else first_tool_hit x y ts)"

definition next_is_click :: "action list \<Rightarrow> bool" where
  "next_is_click rest = (case rest of [] \<Rightarrow> False | b # _ \<Rightarrow> act_is b ''click'')"

text \<open>\<^verbatim>\<open>_count_tool_changes\<close>: the \<^verbatim>\<open>moveTo\<close> branch counts nothing but still runs the
  comparisons.\<close>

fun count_tool_changes_from :: "evaluator \<Rightarrow> nat \<Rightarrow> action list \<Rightarrow> py_error + nat" where
  "count_tool_changes_from ev n [] = Inr n"
| "count_tool_changes_from ev n (a # rest) =
     (if act_is a ''click'' then
        (case first_tool_hit (get_zero a ''x'') (get_zero a ''y'') (tool_positions ev) of
           Inl e \<Rightarrow> Inl e
         | Inr h \<Rightarrow> count_tool_changes_from ev (if h \<noteq> None then Suc n else n) rest)
      else if act_is a ''moveTo'' \<and> next_is_click rest then
        (case first_tool_hit (get_zero a ''x'') (get_zero a ''y'') (tool_positions ev) of
           Inl e \<Rightarrow> Inl e
         | Inr h \<Rightarrow> count_tool_changes_from ev n rest)
      else count_tool_changes_from ev n rest)"

definition count_tool_changes :: "evaluator \<Rightarrow> action list \<Rightarrow> py_error + nat" where
  "count_tool_changes ev actions = count_tool_changes_from ev 0 actions"

text \<open>\<^verbatim>\<open>_count_color_changes\<close>: \<^verbatim>\<open>405 <= x <= 741 and abs(y - 25) < 20\<close>.\<close>

definition color_bar_hit :: "pyval \<Rightarrow> pyval \<Rightarrow> py_error + bool" where
  "color_bar_hit x y =
     ebind (py_num x) (\<lambda>xr. if 405 \<le> xr \<and> xr \<le> 741
                             then ebind (py_num y) (\<lambda>yr. Inr (\<bar>yr - 25\<bar> < 20))
                             else Inr False)"

fun count_color_changes_from :: "nat \<Rightarrow> action list \<Rightarrow> py_error + nat" where
  "count_color_changes_from n [] = Inr n"
| "count_color_changes_from n (a # rest) =
     (if act_is a ''click'' then
        (case color_bar_hit (get_zero a ''x'') (get_zero a ''y'') of
           Inl e \<Rightarrow> Inl e
         | Inr b \<Rightarrow> count_color_changes_from (if b then Suc n else n) rest)
      else count_color_changes_from n rest)"

definition count_color_changes :: "action list \<Rightarrow> py_error + nat" where
  "count_color_changes actions = count_color_changes_from 0 actions"

text \<open>\<^verbatim>\<open>_detect_exact_colors_used\<close>: tolerance 12 on x and 8 on y, both inclusive.\<close>

fun first_color_hit :: "pyval \<Rightarrow> pyval \<Rightarrow> (real \<times> real \<times> string) list \<Rightarrow> py_error + string option" where
  "first_color_hit x y [] = Inr None"
| "first_color_hit x y ((cx, cy, color) # cs) =
     (case ebind (py_num x) (\<lambda>xr. if \<bar>xr - cx\<bar> \<le> 12
                                    then ebind (py_num y) (\<lambda>yr. Inr (\<bar>yr - cy\<bar> \<le> 8))
                                    else Inr False) of
        Inl e \<Rightarrow> Inl e
      | Inr b \<Rightarrow> if b then Inr (Some color) else first_color_hit x y cs)"

fun detect_exact_colors_used :: "evaluator \<Rightarrow> action list \<Rightarrow> py_error + string list" where
  "detect_exact_colors_used ev [] = Inr []"
| "detect_exact_colors_used ev (a # rest) =
     (if act_is a ''click'' \<or> (act_is a ''moveTo'' \<and> next_is_click rest) then
        (case first_color_hit (get_zero a ''x'') (get_zero a ''y'') (color_positions ev) of
           Inl e \<Rightarrow> Inl e
         | Inr h \<Rightarrow>
             (case detect_exact_colors_used ev rest of
                Inl e \<Rightarrow> Inl e
              | Inr cs \<Rightarrow> Inr (case h of Some c \<Rightarrow> c # cs | None \<Rightarrow> cs)))
      else detect_exact_colors_used ev rest)"

text \<open>\<^verbatim>\<open>_count_drawing_segments\<close>.\<close>

fun count_drawing_segments_from :: "nat \<Rightarrow> bool \<Rightarrow> action list \<Rightarrow> nat" where
  "count_drawing_segments_from segments in_segment [] = segments"
| "count_drawing_segments_from segments in_segment (a # rest) =
     (if act_is a ''mouseDown'' then
        (if \<not> in_segment then count_drawing_segments_from (Suc segments) True rest
         else count_drawing_segments_from segments in_segment rest)
      else if act_is a ''mouseUp'' then count_drawing_segments_from segments False rest
      else count_drawing_segments_from segments in_segment rest)"

definition count_drawing_segments :: "action list \<Rightarrow> nat" where
  "count_drawing_segments actions = count_drawing_segments_from 0 False actions"

text \<open>\<^verbatim>\<open>action["x"] - self.canvas_offset_x\<close> and the same for \<^verbatim>\<open>y\<close>, on an action that has
  both keys.\<close>

definition canvas_point :: "evaluator \<Rightarrow> action \<Rightarrow> py_error + (real \<times> real)" where
  "canvas_point ev a =
     ebind (py_num (get_none a ''x'')) (\<lambda>x.
     ebind (py_num (get_none a ''y'')) (\<lambda>y.
       Inr (x - canvas_offset_x ev, y - canvas_offset_y ev)))"

definition in_canvas :: "evaluator \<Rightarrow> real \<Rightarrow> real \<Rightarrow> bool" where
  "in_canvas ev cx cy \<longleftrightarrow>
     0 \<le> cx \<and> cx \<le> canvas_width ev \<and> 0 \<le> cy \<and> cy \<le> canvas_height ev"

text \<open>\<^verbatim>\<open>_estimate_canvas_coverage\<close>: the positions collected by the loop, then the bounding
  box over the canvas area.\<close>

fun coverage_positions :: "evaluator \<Rightarrow> bool \<Rightarrow> action list \<Rightarrow> py_error + (real \<times> real) list" where
  "coverage_positions ev drawing [] = Inr []"
| "coverage_positions ev drawing (a # rest) =
     (let d = (if act_is a ''mouseDown'' then True
               else if act_is a ''mouseUp'' then False else drawing)
      in if d \<and> has_xy a then
           (case canvas_point ev a of
              Inl e \<Rightarrow> Inl e
            | Inr p \<Rightarrow>
                (case coverage_positions ev d rest of
                   Inl e \<Rightarrow> Inl e
                 | Inr ps \<Rightarrow> Inr (if in_canvas ev (fst p) (snd p) then p # ps else ps)))
         else coverage_positions ev d rest)"

definition estimate_canvas_coverage :: "evaluator \<Rightarrow> action list \<Rightarrow> py_error + real" where
  "estimate_canvas_coverage ev actions =
     ebind (coverage_positions ev False actions) (\<lambda>positions.
       if positions = [] then Inr 0
       else
         (let xs = map fst positions; ys = map snd positions;
              bbox_area = (Max (set xs) - Min (set xs)) * (Max (set ys) - Min (set ys))
          in ebind (py_div bbox_area (canvas_width ev * canvas_height ev))
               (\<lambda>coverage. Inr (py_round 4 coverage))))"

text \<open>
  The 20 by 20 grid of \<^verbatim>\<open>_estimate_canvas_coverage_accurate\<close> is the set of its cells
  \<open>(grid_y, grid_x)\<close> that hold 1: \<^verbatim>\<open>grid[gy, gx] = 1\<close> inserts a cell, \<^verbatim>\<open>np.sum(grid)\<close>
  is the number of cells. \<open>cell_of\<close> is the cell of an in-canvas point; dividing by a
  zero canvas size raises \<open>err\<close> (\<^verbatim>\<open>ZeroDivisionError\<close> on Python numbers; in the circle
  branch, on numpy numbers, the quotient is NaN and \<^verbatim>\<open>int\<close> raises \<^verbatim>\<open>ValueError\<close>).
\<close>

type_synonym cell = "int \<times> int"

definition cell_of :: "py_error \<Rightarrow> evaluator \<Rightarrow> real \<Rightarrow> real \<Rightarrow> py_error + cell" where
  "cell_of err ev x y =
     (if canvas_width ev = 0 then Inl err
      else if canvas_height ev = 0 then Inl err
      else Inr (min (py_int (y / canvas_height ev * 20)) 19,
                min (py_int (x / canvas_width ev * 20)) 19))"

fun mark_points :: "py_error \<Rightarrow> evaluator \<Rightarrow> (real \<times> real) list \<Rightarrow> py_error + cell set" where
  "mark_points err ev [] = Inr {}"
| "mark_points err ev (p # ps) =
     (if in_canvas ev (fst p) (snd p) then
        (case cell_of err ev (fst p) (snd p) of
           Inl e \<Rightarrow> Inl e
         | Inr c \<Rightarrow>
             (case mark_points err ev ps of Inl e \<Rightarrow> Inl e | Inr g \<Rightarrow> Inr (insert c g)))
      else mark_points err ev ps)"

text \<open>\<^verbatim>\<open>np.linspace(0, stop, num)\<close>.\<close>

definition linspace0 :: "real \<Rightarrow> nat \<Rightarrow> real list" where
  "linspace0 stop num =
     (if num = 1 then [0] else map (\<lambda>j. real j * (stop / real (num - 1))) [0..<num])"

definition circle_points :: "real \<Rightarrow> real \<Rightarrow> real \<Rightarrow> (real \<times> real) list" where
  "circle_points center_x center_y radius =
     concat (map (\<lambda>angle.
               map (\<lambda>r. (center_x + r * cos angle, center_y + r * sin angle))
                 (linspace0 radius (nat (py_int (radius / 20) + 1))))
             (linspace0 (2 * pi) 50))"

definition line_points :: "real \<Rightarrow> real \<Rightarrow> real \<Rightarrow> real \<Rightarrow> (real \<times> real) list" where
  "line_points cx1 cy1 cx2 cy2 =
     (let steps = nat (py_int (max \<bar>cx2 - cx1\<bar> \<bar>cy2 - cy1\<bar>) + 1)
      in map (\<lambda>i. (cx1 + (real i / real (max (steps - 1) 1)) * (cx2 - cx1),
                    cy1 + (real i / real (max (steps - 1) 1)) * (cy2 - cy1)))
           [0..<steps])"

text \<open>\<^verbatim>\<open>_fill_shape_in_grid\<close>: the cells one shape adds.\<close>

definition fill_shape_in_grid ::
  "evaluator \<Rightarrow> string \<Rightarrow> pyval \<times> pyval \<Rightarrow> pyval \<times> pyval \<Rightarrow> py_error + cell set" where
  "fill_shape_in_grid ev tool start_pos end_pos =
     ebind (py_num (fst start_pos)) (\<lambda>x1.
     ebind (py_num (snd start_pos)) (\<lambda>y1.
     ebind (py_num (fst end_pos)) (\<lambda>x2.
     ebind (py_num (snd end_pos)) (\<lambda>y2.
       (let cx1 = x1 - canvas_offset_x ev; cy1 = y1 - canvas_offset_y ev;
            cx2 = x2 - canvas_offset_x ev; cy2 = y2 - canvas_offset_y ev
        in if tool = ''rectangle'' then
             ebind (py_div (min cx1 cx2) (canvas_width ev)) (\<lambda>q1.
             ebind (py_div (max cx1 cx2) (canvas_width ev)) (\<lambda>q2.
             ebind (py_div (min cy1 cy2) (canvas_height ev)) (\<lambda>q3.
             ebind (py_div (max cy1 cy2) (canvas_height ev)) (\<lambda>q4.
               (let min_gx = max 0 (py_int (q1 * 20)); max_gx = min 19 (py_int (q2 * 20));
                    min_gy = max 0 (py_int (q3 * 20)); max_gy = min 19 (py_int (q4 * 20))
                in Inr ({min_gy..max_gy} \<times> {min_gx..max_gx}))))))
           else if tool = ''circle'' then
             mark_points ValueError ev
               (circle_points cx1 cy1 (sqrt ((cx2 - cx1)\<^sup>2 + (cy2 - cy1)\<^sup>2)))
           else if tool = ''line'' then
             mark_points ZeroDivisionError ev (line_points cx1 cy1 cx2 cy2)
           else Inr {})))))"

text \<open>The scratch state of \<^verbatim>\<open>_estimate_canvas_coverage_accurate\<close> and one iteration of
  its loop; \<open>nxt\<close> says whether \<^verbatim>\<open>actions[i + 1]\<close> exists and is a click.\<close>

record drawing_state =
  is_drawing :: bool
  current_tool :: string
  mouse_down_pos :: "(pyval \<times> pyval) option"
  last_pos :: "pyval \<times> pyval"
  grid :: "cell set"

definition initial_state :: drawing_state where
  "initial_state =
     \<lparr>is_drawing = False, current_tool = ''pen'', mouse_down_pos = None,
      last_pos = (PNum 0, PNum 0), grid = {}\<rparr>"

definition select_tool :: "evaluator \<Rightarrow> action \<Rightarrow> bool \<Rightarrow> py_error + string option" where
  "select_tool ev a nxt =
     (if act_is a ''click'' \<and> has_xy a then
        first_tool_hit (get_none a ''x'') (get_none a ''y'') (tool_positions ev)
      else if act_is a ''moveTo'' then
        ebind (first_tool_hit (get_zero a ''x'') (get_zero a ''y'') (tool_positions ev))
          (\<lambda>h. Inr (if nxt then h else None))
      else Inr None)"

definition press_release :: "evaluator \<Rightarrow> drawing_state \<Rightarrow> action \<Rightarrow> py_error + drawing_state" where
  "press_release ev s a =
     (if act_is a ''mouseDown'' then
        Inr (s\<lparr>is_drawing := True,
               mouse_down_pos :=
                 Some (if has_xy a then (get_none a ''x'', get_none a ''y'') else last_pos s)\<rparr>)
      else if act_is a ''mouseUp'' then
        ebind
          (if is_drawing s \<and> mouse_down_pos s \<noteq> None \<and>
              current_tool s \<in> set [''rectangle'', ''circle'', ''line'']
           then fill_shape_in_grid ev (current_tool s) (the (mouse_down_pos s))
                  (if has_xy a then (get_none a ''x'', get_none a ''y'') else last_pos s)
           else Inr {})
          (\<lambda>cells. Inr (s\<lparr>is_drawing := False, mouse_down_pos := None,
                          grid := grid s \<union> cells\<rparr>))
      else Inr s)"

definition pen_mark :: "evaluator \<Rightarrow> drawing_state \<Rightarrow> action \<Rightarrow> py_error + drawing_state" where
  "pen_mark ev s a =
     (if is_drawing s \<and> current_tool s \<in> set [''pen'', ''eraser''] \<and> has_xy a then
        ebind (canvas_point ev a) (\<lambda>p.
          if in_canvas ev (fst p) (snd p) then
            ebind (cell_of ZeroDivisionError ev (fst p) (snd p))
              (\<lambda>c. Inr (s\<lparr>grid := insert c (grid s)\<rparr>))
          else Inr s)
      else Inr s)"

definition accurate_step ::
  "evaluator \<Rightarrow> drawing_state \<Rightarrow> action \<Rightarrow> bool \<Rightarrow> py_error + drawing_state" where
  "accurate_step ev s a nxt =
     (let s1 = (if has_xy a then s\<lparr>last_pos := (get_none a ''x'', get_none a ''y'')\<rparr> else s)
      in ebind (select_tool ev a nxt) (\<lambda>h.
           ebind (press_release ev (case h of Some t \<Rightarrow> s1\<lparr>current_tool := t\<rparr> | None \<Rightarrow> s1) a)
             (\<lambda>s2. pen_mark ev s2 a)))"

fun accurate_loop :: "evaluator \<Rightarrow> drawing_state \<Rightarrow> action list \<Rightarrow> py_error + drawing_state" where
  "accurate_loop ev s [] = Inr s"
| "accurate_loop ev s (a # rest) =
     (case accurate_step ev s a (next_is_click rest) of
        Inl e \<Rightarrow> Inl e
      | Inr s' \<Rightarrow> accurate_loop ev s' rest)"

definition coverage_grid :: "evaluator \<Rightarrow> action list \<Rightarrow> py_error + cell set" where
  "coverage_grid ev actions = ebind (accurate_loop ev initial_state actions) (\<lambda>s. Inr (grid s))"

definition estimate_canvas_coverage_accurate :: "evaluator \<Rightarrow> action list \<Rightarrow> py_error + real" where
  "estimate_canvas_coverage_accurate ev actions =
     ebind (coverage_grid ev actions) (\<lambda>g. Inr (py_round 4 (real (card g) / 400)))"

section \<open>Criteria\<close>

text \<open>
  The criteria dictionary, by its five recognised keys (each may be absent);
  \<open>other_keys\<close> says whether it holds any other key, which only matters for the test
  \<^verbatim>\<open>if criteria:\<close> (an empty dictionary counts as no criteria).
\<close>

record criteria =
  required_tools :: "string list option"
  required_colors :: "string list option"
  min_segments :: "int option"
  min_coverage :: "real option"
  prompt :: "string option"
  other_keys :: bool

definition given :: "criteria option \<Rightarrow> bool" where
  "given c =
     (case c of
        None \<Rightarrow> False
      | Some r \<Rightarrow> required_tools r \<noteq> None \<or> required_colors r \<noteq> None \<or>
                  min_segments r \<noteq> None \<or> min_coverage r \<noteq> None \<or> prompt r \<noteq> None \<or>
                  other_keys r)"

subsection \<open>Strings\<close>

fun startswith :: "string \<Rightarrow> string \<Rightarrow> bool" where
  "startswith s [] = True"
| "startswith [] (c # p) = False"
| "startswith (d # s) (c # p) = (d = c \<and> startswith s p)"

definition endswith :: "string \<Rightarrow> string \<Rightarrow> bool" where
  "endswith s p = startswith (rev s) (rev p)"

text \<open>\<^verbatim>\<open>sub in s\<close> on strings.\<close>

fun contains :: "string \<Rightarrow> string \<Rightarrow> bool" where
  "contains [] sub = (sub = [])"
| "contains (c # s) sub = (startswith (c # s) sub \<or> contains s sub)"

text \<open>\<^verbatim>\<open>s.replace(old, "")\<close> for a non-empty \<^verbatim>\<open>old\<close>: occurrences are removed from left
  to right, without overlap.\<close>

function str_remove :: "string \<Rightarrow> string \<Rightarrow> string" where
  "str_remove old [] = []"
| "str_remove old (c # s) =
     (if old \<noteq> [] \<and> startswith (c # s) old then str_remove old (drop (length old) (c # s))
      else c # str_remove old s)"
  by pat_completeness auto
termination
  by (relation "measure (\<lambda>(old, s). length s)") auto

text \<open>\<^verbatim>\<open>s.lower()\<close> on ASCII text.\<close>

definition py_lower :: "string \<Rightarrow> string" where
  "py_lower s =
     map (\<lambda>c. if 65 \<le> (of_char c :: nat) \<and> (of_char c :: nat) \<le> 90
               then char_of ((of_char c :: nat) + 32) else c) s"

subsection \<open>Spatial constraint and centroid\<close>

text \<open>\<^verbatim>\<open>_extract_spatial_constraints\<close>: the dictionary it returns is empty or holds the one
  key \<^verbatim>\<open>region\<close>, so it is the region, if any.\<close>

definition extract_spatial_constraints :: "string \<Rightarrow> string option" where
  "extract_spatial_constraints p =
     (if p = [] then None
      else
        (let l = py_lower p
         in if contains l ''top-left'' \<or> contains l ''upper-left'' \<or> contains l ''top left''
            then Some ''top-left''
            else if contains l ''top-right'' \<or> contains l ''upper-right'' \<or>
                    contains l ''top right''
            then Some ''top-right''
            else if contains l ''bottom-left'' \<or> contains l ''lower-left'' \<or>
                    contains l ''bottom left''
            then Some ''bottom-left''
            else if contains l ''bottom-right'' \<or> contains l ''lower-right'' \<or>
                    contains l ''bottom right''
            then Some ''bottom-right''
            else if contains l ''center'' \<or> contains l ''middle'' \<or> contains l ''centre''
            then Some ''center''
            else if contains l ''top'' \<or> contains l ''upper'' then Some ''top''
            else if contains l ''bottom'' \<or> contains l ''lower'' then Some ''bottom''
            else if contains l ''left'' then Some ''left''
            else if contains l ''right'' then Some ''right''
            else None))"

text \<open>The on-canvas test of \<^verbatim>\<open>_calculate_drawing_centroid\<close>, half-open and on screen
  coordinates; it yields the point when it is on the canvas.\<close>

definition point_on_canvas :: "evaluator \<Rightarrow> pyval \<times> pyval \<Rightarrow> py_error + (real \<times> real) option" where
  "point_on_canvas ev p =
     ebind (py_num (fst p)) (\<lambda>x.
       if canvas_offset_x ev \<le> x \<and> x < canvas_offset_x ev + canvas_width ev then
         ebind (py_num (snd p)) (\<lambda>y.
           Inr (if canvas_offset_y ev \<le> y \<and> y < canvas_offset_y ev + canvas_height ev
                then Some (x, y) else None))
       else Inr None)"

fun drawing_points ::
  "evaluator \<Rightarrow> bool \<Rightarrow> (pyval \<times> pyval) option \<Rightarrow> action list \<Rightarrow> py_error + (real \<times> real) list" where
  "drawing_points ev drawing current_pos [] = Inr []"
| "drawing_points ev drawing current_pos (a # rest) =
     (let x = get_none a ''x''; y = get_none a ''y''
      in if act_is a ''moveTo'' \<and> x \<noteq> PNone \<and> y \<noteq> PNone then
           drawing_points ev drawing (Some (x, y)) rest
         else if act_is a ''mouseDown'' \<and> current_pos \<noteq> None then
           (case point_on_canvas ev (the current_pos) of
              Inl e \<Rightarrow> Inl e
            | Inr q \<Rightarrow>
                (case drawing_points ev True current_pos rest of
                   Inl e \<Rightarrow> Inl e
                 | Inr ps \<Rightarrow> Inr (case q of Some pt \<Rightarrow> pt # ps | None \<Rightarrow> ps)))
         else if act_is a ''mouseUp'' then drawing_points ev False current_pos rest
         else if drawing \<and> act_is a ''moveTo'' \<and> x \<noteq> PNone \<and> y \<noteq> PNone then
           (case point_on_canvas ev (x, y) of
              Inl e \<Rightarrow> Inl e
            | Inr q \<Rightarrow>
                (case drawing_points ev drawing current_pos rest of
                   Inl e \<Rightarrow> Inl e
                 | Inr ps \<Rightarrow> Inr (case q of Some pt \<Rightarrow> pt # ps | None \<Rightarrow> ps)))
         else drawing_points ev drawing current_pos rest)"

definition calculate_drawing_centroid ::
  "evaluator \<Rightarrow> action list \<Rightarrow> py_error + (real \<times> real) option" where
  "calculate_drawing_centroid ev actions =
     ebind (drawing_points ev False None actions) (\<lambda>ps.
       if ps = [] then Inr None
       else Inr (Some (sum_list (map fst ps) / real (length ps) - canvas_offset_x ev,
                       sum_list (map snd ps) / real (length ps) - canvas_offset_y ev)))"

definition region_centers :: "evaluator \<Rightarrow> (string \<times> real \<times> real) list" where
  "region_centers ev =
     (let w = canvas_width ev; h = canvas_height ev; third_w = w / 3; third_h = h / 3
      in [(''top-left'', (third_w / 2, third_h / 2)),
          (''top'', (w / 2, third_h / 2)),
          (''top-right'', (w - third_w / 2, third_h / 2)),
          (''left'', (third_w / 2, h / 2)),
          (''center'', (w / 2, h / 2)),
          (''right'', (w - third_w / 2, h / 2)),
          (''bottom-left'', (third_w / 2, h - third_h / 2)),
          (''bottom'', (w / 2, h - third_h / 2)),
          (''bottom-right'', (w - third_w / 2, h - third_h / 2))])"

text \<open>\<^verbatim>\<open>_evaluate_spatial_accuracy\<close>; the result \<open>None\<close> is Python's \<^verbatim>\<open>None\<close>.\<close>

definition evaluate_spatial_accuracy ::
  "evaluator \<Rightarrow> action list \<Rightarrow> string option \<Rightarrow> py_error + real option" where
  "evaluate_spatial_accuracy ev actions constraints =
     (case constraints of
        None \<Rightarrow> Inr None
      | Some region \<Rightarrow>
          ebind (calculate_drawing_centroid ev actions) (\<lambda>centroid.
            case centroid of
              None \<Rightarrow> Inr (Some 0)
            | Some c \<Rightarrow>
                (case map_of (region_centers ev) region of
                   None \<Rightarrow> Inr None
                 | Some target \<Rightarrow>
                     ebind (py_div (sqrt ((fst c - fst target)\<^sup>2 + (snd c - snd target)\<^sup>2))
                              (sqrt ((canvas_width ev)\<^sup>2 + (canvas_height ev)\<^sup>2)))
                       (\<lambda>q. Inr (Some (max 0 (1 - q)))))))"

text \<open>\<^verbatim>\<open>_calculate_action_efficiency\<close>.\<close>

definition calculate_action_efficiency :: "action list \<Rightarrow> criteria \<Rightarrow> real option" where
  "calculate_action_efficiency actions c =
     (let min_actions =
            (case required_tools c of Some ts \<Rightarrow> int (length ts) | None \<Rightarrow> 0) +
            (case required_colors c of Some cs \<Rightarrow> int (length cs) | None \<Rightarrow> 0) +
            (case min_segments c of Some n \<Rightarrow> n * 3 | None \<Rightarrow> 0)
      in if min_actions = 0 then None
         else
           (let ratio = real (length actions) / of_int min_actions
            in Some (py_round 3 (if ratio \<le> 1.5 then 1.0 else if ratio \<le> 2.0 then 0.8
                                 else if ratio \<le> 3.0 then 0.6 else 0.4))))"

subsection \<open>Tool checks\<close>

text \<open>
  The scan for the selection of the tool at \<open>t\<close> (\<^verbatim>\<open>moveTo\<close> near the button followed by
  a click, or a click that has an \<^verbatim>\<open>x\<close> near the button). It yields the actions after
  the selecting click. \<^verbatim>\<open>_check_criteria\<close> runs the same scan for its loose flag.
\<close>

fun find_selection :: "real \<times> real \<Rightarrow> action list \<Rightarrow> py_error + action list option" where
  "find_selection t [] = Inr None"
| "find_selection t (a # rest) =
     (if act_is a ''moveTo'' then
        (case near_tool (get_zero a ''x'') (get_zero a ''y'') t of
           Inl e \<Rightarrow> Inl e
         | Inr b \<Rightarrow> if b \<and> next_is_click rest then Inr (Some (tl rest))
                    else find_selection t rest)
      else if act_is a ''click'' \<and> aget a ''x'' \<noteq> None then
        (case near_tool (get_zero a ''x'') (get_zero a ''y'') t of
           Inl e \<Rightarrow> Inl e
         | Inr b \<Rightarrow> if b then Inr (Some rest) else find_selection t rest)
      else find_selection t rest)"

fun used_after :: "evaluator \<Rightarrow> string \<Rightarrow> action list \<Rightarrow> py_error + bool" where
  "used_after ev tool [] = Inr False"
| "used_after ev tool (a # rest) =
     (if act_is a ''mouseDown'' then Inr True
      else if act_is a ''moveTo'' \<or> act_is a ''click'' then
        (case first_tool_hit (get_zero a ''x'') (get_zero a ''y'')
                (filter (\<lambda>p. fst p \<noteq> tool) (tool_positions ev)) of
           Inl e \<Rightarrow> Inl e
         | Inr h \<Rightarrow> if h \<noteq> None then Inr False else used_after ev tool rest)
      else used_after ev tool rest)"

definition verify_tool_actually_used ::
  "evaluator \<Rightarrow> action list \<Rightarrow> string \<Rightarrow> py_error + (bool \<times> bool)" where
  "verify_tool_actually_used ev actions tool =
     (case map_of (tool_positions ev) tool of
        None \<Rightarrow> Inr (False, False)
      | Some t \<Rightarrow>
          ebind (find_selection t actions) (\<lambda>sel.
            case sel of
              None \<Rightarrow> Inr (False, False)
            | Some after \<Rightarrow> ebind (used_after ev tool after) (\<lambda>u. Inr (True, u))))"

subsection \<open>\<^verbatim>\<open>_check_criteria\<close>\<close>

text \<open>The result dictionary keeps insertion order; writing a key again overwrites its
  value in place (\<open>AList.update\<close>). A Python set turned into a list has no promised
  order; the model lists it in order of first occurrence.\<close>

fun check_tools ::
  "evaluator \<Rightarrow> action list \<Rightarrow> string list \<Rightarrow> (string \<times> pyval) list \<Rightarrow>
   py_error + (string \<times> pyval) list" where
  "check_tools ev actions [] results = Inr results"
| "check_tools ev actions (tool # tools) results =
     (case (case map_of (tool_positions ev) tool of
              None \<Rightarrow> Inr False
            | Some t \<Rightarrow> ebind (find_selection t actions) (\<lambda>sel. Inr (sel \<noteq> None))) of
        Inl e \<Rightarrow> Inl e
      | Inr tool_used \<Rightarrow>
          (case verify_tool_actually_used ev actions tool of
             Inl e \<Rightarrow> Inl e
           | Inr su \<Rightarrow>
               check_tools ev actions tools
                 (AList.update (''tool_'' @ tool @ ''_actually_used'') (PBool (snd su))
                   (AList.update (''tool_'' @ tool @ ''_selected'') (PBool (fst su))
                     (AList.update (''tool_'' @ tool @ ''_used'') (PBool tool_used) results)))))"

definition check_segments :: "action list \<Rightarrow> int \<Rightarrow> (string \<times> pyval) list \<Rightarrow> (string \<times> pyval) list" where
  "check_segments actions n results =
     (let actual_segments = count_drawing_segments actions
      in AList.update ''actual_segments'' (PNum (real actual_segments))
           (AList.update ''min_segments_met'' (PBool (n \<le> int actual_segments)) results))"

definition check_colors ::
  "evaluator \<Rightarrow> action list \<Rightarrow> string list \<Rightarrow> (string \<times> pyval) list \<Rightarrow>
   py_error + (string \<times> pyval) list" where
  "check_colors ev actions colors results =
     ebind (count_color_changes actions) (\<lambda>color_clicks.
     ebind (detect_exact_colors_used ev actions) (\<lambda>exact_colors.
       (let required = remdups colors; used = remdups exact_colors;
            matched_colors = filter (\<lambda>c. c \<in> set used) required;
            missing_colors = filter (\<lambda>c. c \<notin> set used) required
        in Inr (AList.update ''min_colors_exact_met''
                  (PBool (length required \<le> length matched_colors))
               (AList.update ''colors_missing'' (PList (map PStr missing_colors))
               (AList.update ''colors_matched'' (PNum (real (length matched_colors)))
               (AList.update ''colors_exact_used'' (PList (map PStr used))
               (AList.update ''min_colors_met'' (PBool (length colors \<le> color_clicks))
               (AList.update ''colors_changed'' (PNum (real color_clicks)) results)))))))))"

definition check_coverage ::
  "evaluator \<Rightarrow> action list \<Rightarrow> real \<Rightarrow> (string \<times> pyval) list \<Rightarrow>
   py_error + (string \<times> pyval) list" where
  "check_coverage ev actions m results =
     ebind (estimate_canvas_coverage ev actions) (\<lambda>coverage.
     ebind (estimate_canvas_coverage_accurate ev actions) (\<lambda>accurate_coverage.
       Inr (AList.update ''min_coverage_accurate_met'' (PBool (m \<le> accurate_coverage))
           (AList.update ''canvas_coverage_accurate'' (PNum accurate_coverage)
           (AList.update ''min_coverage_met'' (PBool (m \<le> coverage))
           (AList.update ''canvas_coverage'' (PNum coverage) results))))))"

definition check_criteria ::
  "evaluator \<Rightarrow> action list \<Rightarrow> criteria \<Rightarrow> py_error + (string \<times> pyval) list" where
  "check_criteria ev actions c =
     ebind (case required_tools c of
              Some tools \<Rightarrow> check_tools ev actions tools []
            | None \<Rightarrow> Inr []) (\<lambda>r1.
     (let r2 = (case min_segments c of Some n \<Rightarrow> check_segments actions n r1 | None \<Rightarrow> r1)
      in ebind (case required_colors c of
                  Some colors \<Rightarrow> check_colors ev actions colors r2
                | None \<Rightarrow> Inr r2) (\<lambda>r3.
           case min_coverage c of
             Some m \<Rightarrow> check_coverage ev actions m r3
           | None \<Rightarrow> Inr r3)))"

section \<open>Scorer\<close>

text \<open>
  The result dictionary as \<^verbatim>\<open>_calculate_score\<close> receives it. A key that \<^verbatim>\<open>evaluate\<close> sets
  only under a condition is an option (\<open>None\<close>: the key is absent).
\<close>

record results =
  total_actions :: nat
  action_breakdown :: "(string \<times> nat) list"
  errors :: "diag list"
  warnings :: "diag list"
  metrics :: "(string \<times> pyval) list"
  criteria_met :: "(string \<times> pyval) list option"
  colors_required :: "nat option"
  results_min_coverage :: "real option"

text \<open>Truth value of a Python value (\<^verbatim>\<open>if not value\<close>).\<close>

fun truthy :: "pyval \<Rightarrow> bool" where
  "truthy PNone = False"
| "truthy (PBool b) = b"
| "truthy (PNum r) = (r \<noteq> 0)"
| "truthy (PStr s) = (s \<noteq> [])"
| "truthy (PList l) = (l \<noteq> [])"
| "truthy (PDict d) = (d \<noteq> [])"

text \<open>\<^verbatim>\<open>d.get(key, default)\<close> on a dictionary of values.\<close>

definition dget :: "(string \<times> pyval) list \<Rightarrow> string \<Rightarrow> pyval \<Rightarrow> pyval" where
  "dget d k dflt = (case map_of d k of Some v \<Rightarrow> v | None \<Rightarrow> dflt)"

text \<open>The tool loop over \<^verbatim>\<open>criteria_met.items()\<close>: the penalty one item adds.\<close>

definition tool_penalty_of :: "(string \<times> pyval) list \<Rightarrow> string \<times> pyval \<Rightarrow> real" where
  "tool_penalty_of cm kv =
     (if endswith (fst kv) ''_actually_used'' then (if \<not> truthy (snd kv) then 0.15 else 0)
      else if startswith (fst kv) ''tool_'' \<and> endswith (fst kv) ''_used'' then
        (if map_of cm (''tool_'' @ str_remove ''_used'' (str_remove ''tool_'' (fst kv)) @
                       ''_actually_used'') = None
         then (if \<not> truthy (snd kv) then 0.15 else 0)
         else 0)
      else 0)"

definition tool_penalties :: "(string \<times> pyval) list \<Rightarrow> real" where
  "tool_penalties cm = sum_list (map (tool_penalty_of cm) cm)"

definition color_penalty :: "results \<Rightarrow> (string \<times> pyval) list \<Rightarrow> py_error + real" where
  "color_penalty r cm =
     (let colors_req = (case colors_required r of Some n \<Rightarrow> real n | None \<Rightarrow> 0)
      in if dget cm ''min_colors_exact_met'' PNone \<noteq> PNone then
           (if \<not> truthy (dget cm ''min_colors_exact_met'' (PBool True)) then
              ebind (py_num (dget cm ''colors_matched'' (PNum 0)))
                (\<lambda>colors_matched. Inr (0.05 * max 0 (colors_req - colors_matched)))
            else Inr 0)
         else
           (if \<not> truthy (dget cm ''min_colors_met'' (PBool True)) then
              ebind (py_num (dget cm ''colors_changed'' (PNum 0)))
                (\<lambda>colors_used. Inr (0.05 * max 0 (colors_req - colors_used)))
            else Inr 0))"

definition segment_penalty :: "(string \<times> pyval) list \<Rightarrow> real" where
  "segment_penalty cm = (if \<not> truthy (dget cm ''min_segments_met'' (PBool True)) then 0.15 else 0)"

text \<open>The coverage block of \<^verbatim>\<open>_calculate_score\<close>: what it subtracts.\<close>

definition coverage_penalty :: "results \<Rightarrow> (string \<times> pyval) list \<Rightarrow> py_error + real" where
  "coverage_penalty r cm =
     (if dget cm ''min_coverage_accurate_met'' PNone \<noteq> PNone then
        (if \<not> truthy (dget cm ''min_coverage_accurate_met'' (PBool True)) then
           (let required_coverage = (case results_min_coverage r of Some m \<Rightarrow> m | None \<Rightarrow> 0)
            in if 0 < required_coverage then
                 ebind (py_num (dget (metrics r) ''canvas_coverage_accurate'' (PNum 0)))
                   (\<lambda>actual_coverage.
                      Inr (max 0 (required_coverage - actual_coverage) / required_coverage * 0.12))
               else Inr 0)
         else Inr 0)
      else
        (if \<not> truthy (dget cm ''min_coverage_met'' (PBool True)) then Inr 0.12 else Inr 0))"

text \<open>The end of \<^verbatim>\<open>_calculate_score\<close>: the bonus for 10 to 500 actions, then rounding and
  the clamp.\<close>

definition finish_score :: "nat \<Rightarrow> real \<Rightarrow> real" where
  "finish_score action_count score =
     (let score' = (if 10 \<le> action_count \<and> action_count \<le> 500 \<and> 0.2 \<le> score
                    then score + 0.05 else score)
      in max 0 (min 1 (py_round 3 score')))"

definition calculate_score :: "results \<Rightarrow> py_error + real" where
  "calculate_score r =
     (let cm = (case criteria_met r of Some d \<Rightarrow> d | None \<Rightarrow> [])
      in ebind (color_penalty r cm) (\<lambda>cp.
         ebind (coverage_penalty r cm) (\<lambda>vp.
           Inr (finish_score (total_actions r)
                  (1 - tool_penalties cm - cp - segment_penalty cm - vp
                     - real (length (errors r)) * 0.08
                     - real (length (warnings r)) * 0.02)))))"

section \<open>Error classifier\<close>

datatype entry =
    MissingRequiredTool string
  | MissingRequiredColor string
  | InsufficientCoverage real real real
  | InsufficientSegments real int real
  | IncorrectSpatialPlacement real pyval
  | Reported diag

record classification =
  spatial_errors :: "entry list"
  tool_errors :: "entry list"
  color_errors :: "entry list"
  planning_errors :: "entry list"
  syntax_errors :: "entry list"

definition no_classification :: classification where
  "no_classification =
     \<lparr>spatial_errors = [], tool_errors = [], color_errors = [], planning_errors = [],
      syntax_errors = []\<rparr>"

definition classify_errors :: "results \<Rightarrow> criteria \<Rightarrow> py_error + classification" where
  "classify_errors r c =
     (let cm = (case criteria_met r of Some d \<Rightarrow> d | None \<Rightarrow> []);
          tool_es =
            map (\<lambda>kv. MissingRequiredTool
                         (str_remove ''_actually_used'' (str_remove ''tool_'' (fst kv))))
              (filter (\<lambda>kv. endswith (fst kv) ''_actually_used'' \<and> \<not> truthy (snd kv)) cm);
          color_es =
            (case required_colors c of
               None \<Rightarrow> []
             | Some colors \<Rightarrow>
                 map MissingRequiredColor
                   (filter (\<lambda>color. PStr color \<notin>
                              set (case dget (metrics r) ''exact_colors_used'' (PList []) of
                                     PList l \<Rightarrow> l | _ \<Rightarrow> [])) colors))
      in ebind (case min_coverage c of
                  None \<Rightarrow> Inr []
                | Some required \<Rightarrow>
                    ebind (py_num (dget (metrics r) ''canvas_coverage_accurate'' (PNum 0)))
                      (\<lambda>actual. Inr (if actual < required
                                      then [InsufficientCoverage actual required (required - actual)]
                                      else []))) (\<lambda>coverage_es.
         ebind (case min_segments c of
                  None \<Rightarrow> Inr []
                | Some required \<Rightarrow>
                    ebind (py_num (dget (metrics r) ''drawing_segments'' (PNum 0)))
                      (\<lambda>actual. Inr (if actual < of_int required
                                      then [InsufficientSegments actual required
                                              (of_int required - actual)]
                                      else []))) (\<lambda>planning_es.
         ebind (case dget (metrics r) ''spatial_accuracy'' PNone of
                  PNone \<Rightarrow> Inr []
                | v \<Rightarrow>
                    ebind (py_num v)
                      (\<lambda>acc. Inr (if acc < 0.7
                                   then [IncorrectSpatialPlacement acc
                                           (case dget (metrics r) ''spatial_constraints'' (PDict []) of
                                              PDict d \<Rightarrow> dget d ''region'' PNone | _ \<Rightarrow> PNone)]
                                   else []))) (\<lambda>placement_es.
           Inr \<lparr>spatial_errors = coverage_es @ placement_es, tool_errors = tool_es,
                color_errors = color_es, planning_errors = planning_es,
                syntax_errors = map Reported (errors r)\<rparr>))))"

section \<open>\<^verbatim>\<open>evaluate\<close>\<close>

text \<open>
  The value \<^verbatim>\<open>evaluate\<close> returns: the result dictionary with its \<^verbatim>\<open>score\<close>, and with
  \<^verbatim>\<open>error_classification\<close> on every path but the one for an input that is no list.
  The parameter \<^verbatim>\<open>ground_truth\<close> is never read and is left out.
\<close>

record evaluation = results +
  score :: real
  error_classification :: "classification option"

definition not_a_list_result :: evaluation where
  "not_a_list_result =
     \<lparr>total_actions = 0, action_breakdown = [],
      errors = [\<lparr>dtype = ''SYNTAX_ERROR'', dindex = Some (- 1), dmessage = ActionsMustBeList,
                 daction_detail = None\<rparr>],
      warnings = [],
      metrics = [(''tool_changes'', PNum 0), (''color_changes'', PNum 0),
                 (''drawing_segments'', PNum 0), (''canvas_coverage'', PNum 0),
                 (''canvas_coverage_accurate'', PNum 0), (''exact_colors_used'', PList [])],
      criteria_met = None, colors_required = None, results_min_coverage = None,
      score = 0, error_classification = None\<rparr>"

definition opt_num :: "real option \<Rightarrow> pyval" where
  "opt_num v = (case v of Some r \<Rightarrow> PNum r | None \<Rightarrow> PNone)"

text \<open>The spatial-accuracy block of \<^verbatim>\<open>evaluate\<close>: the two metrics it sets.\<close>

definition spatial_metrics ::
  "evaluator \<Rightarrow> action list \<Rightarrow> criteria option \<Rightarrow> py_error + (pyval \<times> pyval)" where
  "spatial_metrics ev actions c =
     (case (if given c then prompt (the c) else None) of
        Some p \<Rightarrow>
          (case extract_spatial_constraints p of
             Some region \<Rightarrow>
               ebind (evaluate_spatial_accuracy ev actions (Some region))
                 (\<lambda>acc. Inr (opt_num acc, PDict [(''region'', PStr region)]))
           | None \<Rightarrow> Inr (PNone, PDict []))
      | None \<Rightarrow> Inr (PNone, PDict []))"

definition evaluate_list ::
  "(string \<Rightarrow> real option) \<Rightarrow> evaluator \<Rightarrow> pyval list \<Rightarrow> criteria option \<Rightarrow>
   py_error + evaluation" where
  "evaluate_list sf ev raw c =
     ebind (count_actions raw) (\<lambda>breakdown.
     (let actions = map dict_items raw
      in ebind (check_coordinate_errors sf ev actions) (\<lambda>coordinate_errors.
         (let errs = check_syntax_errors actions @ coordinate_errors;
              warns = check_efficiency_warnings actions
          in
         ebind (count_tool_changes ev actions) (\<lambda>tool_changes.
         ebind (count_color_changes actions) (\<lambda>color_changes.
         ebind (estimate_canvas_coverage ev actions) (\<lambda>coverage.
         ebind (estimate_canvas_coverage_accurate ev actions) (\<lambda>accurate.
         ebind (detect_exact_colors_used ev actions) (\<lambda>exact_colors.
         ebind (spatial_metrics ev actions c) (\<lambda>spatial.
         ebind (if given c then ebind (check_criteria ev actions (the c)) (\<lambda>cm. Inr (Some cm))
                else Inr None) (\<lambda>cm.
           (let r = \<lparr>total_actions = length raw, action_breakdown = breakdown,
                     errors = errs, warnings = warns,
                     metrics =
                       [(''tool_changes'', PNum (real tool_changes)),
                        (''color_changes'', PNum (real color_changes)),
                        (''drawing_segments'', PNum (real (count_drawing_segments actions))),
                        (''canvas_coverage'', PNum coverage),
                        (''canvas_coverage_accurate'', PNum accurate),
                        (''exact_colors_used'', PList (map PStr exact_colors)),
                        (''spatial_accuracy'', fst spatial),
                        (''spatial_constraints'', snd spatial),
                        (''action_efficiency'',
                         (if given c then opt_num (calculate_action_efficiency actions (the c))
                          else PNone))],
                     criteria_met = cm,
                     colors_required =
                       (if given c then map_option length (required_colors (the c)) else None),
                     results_min_coverage = (if given c then min_coverage (the c) else None)\<rparr>
            in ebind (calculate_score r) (\<lambda>sc.
               ebind (if given c then classify_errors r (the c) else Inr no_classification)
                 (\<lambda>cl. Inr (results.extend r
                              \<lparr>score = sc, error_classification = Some cl\<rparr>)))))))))))))))"

definition evaluate ::
  "(string \<Rightarrow> real option) \<Rightarrow> evaluator \<Rightarrow> pyval \<Rightarrow> criteria option \<Rightarrow> py_error + evaluation" where
  "evaluate sf ev actions c =
     (case actions of
        PList raw \<Rightarrow> evaluate_list sf ev raw c
      | _ \<Rightarrow> Inr not_a_list_result)"

lemma ebind_Inl [simp]: "ebind (Inl e) f = Inl e"
  by (simp add: ebind_def)

lemma ebind_Inr [simp]: "ebind (Inr v) f = f v"
  by (simp add: ebind_def)

text \<open>The continuation of a bind is looked at only once its first part is a value.\<close>

lemma ebind_weak_cong [cong]: "m = m' \<Longrightarrow> ebind m f = ebind m' f"
  by simp

lemma ebind_eq_Inr: "ebind m f = Inr v \<longleftrightarrow> (\<exists>u. m = Inr u \<and> f u = Inr v)"
  by (cases m) simp_all

section \<open>Example inputs\<close>

text \<open>
  A layout with the canvas geometry the diagnostics of \<^verbatim>\<open>_build_coordinate_error_context\<close>
  name (a 1000 by 700 canvas at offset (90, 70)), one colour swatch and two tool buttons,
  and the action log and criteria of the script at the end of \<^verbatim>\<open>evaluator.py\<close>.
\<close>

definition example_layout :: evaluator where
  "example_layout =
     \<lparr>canvas_width = 1000, canvas_height = 700, canvas_offset_x = 90, canvas_offset_y = 70,
      color_positions = [(453, 25, ''#FF0000'')],
      tool_positions = [(''pen'', (245, 25)), (''rectangle'', (345, 25))],
      tolerance = 40\<rparr>"

definition moveTo :: "real \<Rightarrow> real \<Rightarrow> pyval" where
  "moveTo x y = PDict [(''action'', PStr ''moveTo''), (''x'', PNum x), (''y'', PNum y)]"

definition test_actions :: pyval where
  "test_actions =
     PList [moveTo 453 25, PDict [(''action'', PStr ''click'')],
            moveTo 245 25, PDict [(''action'', PStr ''click'')],
            moveTo 590 420, PDict [(''action'', PStr ''mouseDown'')],
            moveTo 640 420, moveTo 665 445, moveTo 665 495,
            PDict [(''action'', PStr ''mouseUp'')]]"

definition test_criteria :: criteria where
  "test_criteria =
     \<lparr>required_tools = Some [''pen''], required_colors = Some [''#FF0000''],
      min_segments = Some 1, min_coverage = Some 0.01, prompt = None, other_keys = False\<rparr>"

section \<open>Evaluating the model\<close>

text \<open>Coordinates up to a million are far inside the range of \<^verbatim>\<open>float\<close>.\<close>

lemma below_float_limit: "r \<le> 1000000 \<Longrightarrow> r < float_limit"
proof -
  have "(1000000::real) < 2 ^ 1024 - 2 ^ 970" by simp
  then show "r \<le> 1000000 \<Longrightarrow> r < float_limit" by (simp add: float_limit_def)
qed

lemma above_float_limit: "- 1000000 \<le> r \<Longrightarrow> - float_limit < r"
proof -
  have "(1000000::real) < 2 ^ 1024 - 2 ^ 970" by simp
  then show "- 1000000 \<le> r \<Longrightarrow> - float_limit < r" by (simp add: float_limit_def)
qed

lemmas eval_defs =
  evaluate_def evaluate_list_def count_actions_def counts0_def bump_def
  check_syntax_errors_def check_coordinate_errors_def check_efficiency_warnings_def
  count_tool_changes_def count_color_changes_def estimate_canvas_coverage_def
  estimate_canvas_coverage_accurate_def coverage_grid_def initial_state_def
  spatial_metrics_def given_def count_drawing_segments_def calculate_score_def finish_score_def
  color_penalty_def coverage_penalty_def tool_penalties_def segment_penalty_def dget_def
  py_round_def no_classification_def Let_def results.defs syntax_errors_at_def
  coordinate_errors_at_def aget_def act_is_def has_xy_def get_zero_def get_none_def
  near_tool_def next_is_click_def color_bar_hit_def canvas_point_def in_canvas_def
  py_div_def accurate_step_def select_tool_def press_release_def pen_mark_def cell_of_def
  py_int_def check_criteria_def check_segments_def check_colors_def check_coverage_def
  verify_tool_actually_used_def calculate_action_efficiency_def classify_errors_def
  opt_num_def tool_penalty_of_def endswith_def invalid_coordinates_error_def
  bounds_errors_def below_float_limit above_float_limit

lemmas example_defs = example_layout_def moveTo_def test_actions_def test_criteria_def

lemma test_actions_evaluate:
  "\<exists>r. evaluate (\<lambda>s. None) example_layout test_actions (Some test_criteria) = Inr r"
  by (simp add: example_defs eval_defs)

section \<open>The score is clamped and rounded\<close>

lemma py_round_decimal: "\<exists>k::int. py_round n v = of_int k / 10 ^ n"
  unfolding py_round_def Let_def by blast

lemma clamp_decimal:
  assumes "s = of_int k / (1000::real)"
  shows "0 \<le> max 0 (min 1 s) \<and> max 0 (min 1 s) \<le> 1 \<and>
         (\<exists>j::int. max 0 (min 1 s) = of_int j / 1000)"
proof -
  consider "s \<le> 0" | "0 < s" "s < 1" | "1 \<le> s" by linarith
  then show ?thesis
  proof cases
    case 1
    then have "max 0 (min 1 s) = of_int 0 / 1000" by simp
    then show ?thesis by (metis max.cobounded1 max.bounded_iff min.cobounded1 zero_le_one)
  next
    case 2
    then have "max 0 (min 1 s) = of_int k / 1000" using assms by simp
    then show ?thesis using 2 assms by (metis less_eq_real_def)
  next
    case 3
    then have "max 0 (min 1 s) = of_int 1000 / 1000" by simp
    then show ?thesis by (metis max.cobounded1 max.bounded_iff min.cobounded1 zero_le_one)
  qed
qed

lemma calculate_score_range:
  assumes "calculate_score r = Inr sc"
  shows "0 \<le> sc \<and> sc \<le> 1 \<and> (\<exists>k::int. sc = of_int k / 1000)"
proof -
  from assms obtain s where sc: "sc = max 0 (min 1 (py_round 3 s))"
    by (auto simp: calculate_score_def finish_score_def ebind_eq_Inr Let_def)
  obtain k :: int where "py_round 3 s = of_int k / 10 ^ 3"
    using py_round_decimal by blast
  then have "py_round 3 s = of_int k / 1000" by simp
  from clamp_decimal [OF this] show ?thesis unfolding sc .
qed

lemma evaluate_list_score:
  assumes "evaluate_list sf ev raw c = Inr r"
  shows "\<exists>r0. calculate_score r0 = Inr (score r)"
  using assms by (auto simp: evaluate_list_def ebind_eq_Inr Let_def results.defs)

text \<open>
  C1. Whatever the actions argument and the criteria (absent or not), the score of a
  result that \<open>evaluate\<close> returns lies in [0, 1] and is a whole number of thousandths:
  the scorer rounds to three decimals and clamps last.
\<close>

theorem score_in_unit_interval:
  assumes "evaluate sf ev actions c = Inr r"
  shows "0 \<le> score r \<and> score r \<le> 1 \<and> (\<exists>k::int. score r = of_int k / 1000)"
proof (cases actions)
  case (PList raw)
  with assms have "evaluate_list sf ev raw c = Inr r" by (simp add: evaluate_def)
  then obtain r0 where "calculate_score r0 = Inr (score r)"
    using evaluate_list_score by blast
  then show ?thesis by (rule calculate_score_range)
qed (use assms in \<open>auto simp: evaluate_def not_a_list_result_def\<close>)

theorem score_in_unit_interval_witness:
  "\<exists>r. evaluate (\<lambda>s. None) example_layout test_actions (Some test_criteria) = Inr r \<and>
       0 \<le> score r \<and> score r \<le> 1 \<and> (\<exists>k::int. score r = of_int k / 1000)"
proof -
  obtain r where r: "evaluate (\<lambda>s. None) example_layout test_actions (Some test_criteria) = Inr r"
    using test_actions_evaluate by blast
  from score_in_unit_interval [OF r] r show ?thesis by blast
qed

section \<open>An input that is no list\<close>

text \<open>
  C2, as the code has it. For every input that is not a list, \<open>evaluate\<close> returns the
  same fixed result whatever the criteria: score 0, the one top-level
  \<^verbatim>\<open>SYNTAX_ERROR\<close> with index -1, no warning, no \<^verbatim>\<open>criteria_met\<close> and no
  \<^verbatim>\<open>error_classification\<close>. Its metrics are not empty: they hold six entries, all zero
  or the empty list.
\<close>

theorem evaluate_not_a_list:
  assumes "\<forall>raw. actions \<noteq> PList raw"
  shows "evaluate sf ev actions c = Inr not_a_list_result \<and>
         score not_a_list_result = 0 \<and>
         errors not_a_list_result =
           [\<lparr>dtype = ''SYNTAX_ERROR'', dindex = Some (- 1), dmessage = ActionsMustBeList,
             daction_detail = None\<rparr>] \<and>
         warnings not_a_list_result = [] \<and>
         metrics not_a_list_result =
           [(''tool_changes'', PNum 0), (''color_changes'', PNum 0),
            (''drawing_segments'', PNum 0), (''canvas_coverage'', PNum 0),
            (''canvas_coverage_accurate'', PNum 0), (''exact_colors_used'', PList [])] \<and>
         criteria_met not_a_list_result = None \<and>
         error_classification not_a_list_result = None"
  using assms by (cases actions) (simp_all add: evaluate_def not_a_list_result_def)

theorem evaluate_not_a_list_witness:
  "evaluate (\<lambda>s. None) example_layout (PNum 5) (Some test_criteria) = Inr not_a_list_result \<and>
   score not_a_list_result = 0 \<and> length (errors not_a_list_result) = 1 \<and>
   length (metrics not_a_list_result) = 6"
proof -
  have "\<forall>raw. PNum 5 \<noteq> PList raw" by simp
  from evaluate_not_a_list [OF this, of "\<lambda>s. None" example_layout "Some test_criteria"]
  show ?thesis by simp
qed

text \<open>The claim's "empty metrics" fails: on a string the metrics map has entries.\<close>

theorem evaluate_not_a_list_metrics_counterexample:
  "\<not> (\<exists>r. evaluate (\<lambda>s. None) example_layout (PStr ''draw a circle'') None = Inr r \<and>
          metrics r = [])"
  by (simp add: evaluate_def not_a_list_result_def)

section \<open>Malformed coordinates\<close>

lemma first_tool_hit_string:
  "first_tool_hit (PStr s) y ts = (if ts = [] then Inr None else Inl TypeError)"
  by (cases ts) (auto simp: near_tool_def)

text \<open>
  C3 at a failing input. The log holds one click whose coordinates are strings. The
  coordinate check catches the failing \<^verbatim>\<open>float\<close> conversion and reports the entry as a
  \<^verbatim>\<open>SYNTAX_ERROR\<close>; the analyzer passes that follow subtract and compare the same
  values unguarded, so \<open>evaluate\<close> raises \<^verbatim>\<open>TypeError\<close>, for every layout and criteria.
  A list element that is no dictionary fails earlier, in \<^verbatim>\<open>_count_actions\<close>.
\<close>

theorem evaluate_raises_on_string_coordinates:
  "check_coordinate_errors (\<lambda>s. None) ev
     [[(''action'', PStr ''click''), (''x'', PStr ''left''), (''y'', PStr ''top'')]] =
     Inr [\<lparr>dtype = ''SYNTAX_ERROR'', dindex = Some 0,
           dmessage = InvalidCoordinateTypes 0 (PStr ''left'') (PStr ''top''),
           daction_detail = Some (DetailName (PStr ''click''))\<rparr>] \<and>
   evaluate sf ev
     (PList [PDict [(''action'', PStr ''click''), (''x'', PStr ''left''), (''y'', PStr ''top'')]])
     c = Inl TypeError \<and>
   evaluate sf ev (PList [PNum 5]) c = Inl AttributeError"
proof (intro conjI)
  show "evaluate sf ev (PList [PNum 5]) c = Inl AttributeError"
    by (simp add: evaluate_def evaluate_list_def count_actions_def)
next
  show "check_coordinate_errors (\<lambda>s. None) ev
     [[(''action'', PStr ''click''), (''x'', PStr ''left''), (''y'', PStr ''top'')]] =
     Inr [\<lparr>dtype = ''SYNTAX_ERROR'', dindex = Some 0,
           dmessage = InvalidCoordinateTypes 0 (PStr ''left'') (PStr ''top''),
           daction_detail = Some (DetailName (PStr ''click''))\<rparr>]"
    by (simp add: check_coordinate_errors_def coordinate_errors_at_def
        invalid_coordinates_error_def aget_def get_none_def)
next
  have "\<exists>es. check_coordinate_errors sf ev
     [[(''action'', PStr ''click''), (''x'', PStr ''left''), (''y'', PStr ''top'')]] = Inr es"
    by (cases "sf ''left''"; cases "sf ''top''")
       (simp_all add: check_coordinate_errors_def coordinate_errors_at_def aget_def)
  then obtain es where coords: "check_coordinate_errors sf ev
     [[(''action'', PStr ''click''), (''x'', PStr ''left''), (''y'', PStr ''top'')]] = Inr es"
    by blast
  have tools: "count_tool_changes ev
     [[(''action'', PStr ''click''), (''x'', PStr ''left''), (''y'', PStr ''top'')]] =
     (if tool_positions ev = [] then Inr 0 else Inl TypeError)"
    by (simp add: count_tool_changes_def act_is_def aget_def get_zero_def first_tool_hit_string)
  have colors: "count_color_changes
     [[(''action'', PStr ''click''), (''x'', PStr ''left''), (''y'', PStr ''top'')]] =
     Inl TypeError"
    by (simp add: count_color_changes_def act_is_def aget_def get_zero_def color_bar_hit_def)
  show "evaluate sf ev
     (PList [PDict [(''action'', PStr ''click''), (''x'', PStr ''left''), (''y'', PStr ''top'')]])
     c = Inl TypeError"
    by (simp add: evaluate_def evaluate_list_def count_actions_def counts0_def bump_def
        Let_def coords tools colors)
qed

theorem evaluate_raises_on_string_coordinates_witness:
  "evaluate (\<lambda>s. None) example_layout
     (PList [PDict [(''action'', PStr ''click''), (''x'', PStr ''left''), (''y'', PStr ''top'')]])
     None = Inl TypeError"
  using evaluate_raises_on_string_coordinates [of example_layout "\<lambda>s. None" None] by simp

section \<open>The empty log\<close>

text \<open>
  C4. On the empty action list with no criteria, \<open>evaluate\<close> returns no error and no
  warning, every count 0, both coverage metrics 0 and the score 1, for every layout.
\<close>

theorem evaluate_empty_log:
  "evaluate sf ev (PList []) None =
     Inr \<lparr>total_actions = 0,
          action_breakdown = [(''moveTo'', 0), (''click'', 0), (''mouseDown'', 0),
                              (''mouseUp'', 0), (''unknown'', 0)],
          errors = [], warnings = [],
          metrics = [(''tool_changes'', PNum 0), (''color_changes'', PNum 0),
                     (''drawing_segments'', PNum 0), (''canvas_coverage'', PNum 0),
                     (''canvas_coverage_accurate'', PNum 0),
                     (''exact_colors_used'', PList []), (''spatial_accuracy'', PNone),
                     (''spatial_constraints'', PDict []), (''action_efficiency'', PNone)],
          criteria_met = None, colors_required = None, results_min_coverage = None,
          score = 1, error_classification = Some no_classification\<rparr>"
  by (simp add: eval_defs)

theorem evaluate_empty_log_witness:
  "\<exists>r. evaluate (\<lambda>s. None) example_layout (PList []) None = Inr r \<and> score r = 1 \<and>
       errors r = [] \<and> warnings r = [] \<and>
       map_of (metrics r) ''canvas_coverage'' = Some (PNum 0) \<and>
       map_of (metrics r) ''canvas_coverage_accurate'' = Some (PNum 0)"
  using evaluate_empty_log [of "\<lambda>s. None" example_layout] by simp

section \<open>Screen bounds\<close>

text \<open>Whether a message is the one \<^verbatim>\<open>_build_coordinate_error_context\<close> builds for
  \<^verbatim>\<open>"screen_bounds"\<close>.\<close>

fun is_screen_message :: "message \<Rightarrow> bool" where
  "is_screen_message (OutOfScreenBounds i t x y ps ctx) = True"
| "is_screen_message _ = False"

text \<open>\<^verbatim>\<open>float\<close> raises \<^verbatim>\<open>OverflowError\<close> on a number beyond the range of a double and on
  nothing else.\<close>

lemma py_float_overflow:
  "py_float sf v = Inl OverflowError \<longleftrightarrow>
     (\<exists>r. v = PNum r \<and> \<not> (- float_limit < r \<and> r < float_limit))"
  by (cases v) (auto split: option.splits)

text \<open>The iteration for one action raises exactly when \<^verbatim>\<open>x\<close> overflows, or \<^verbatim>\<open>x\<close> converts
  and \<^verbatim>\<open>y\<close> overflows; the exception is always \<^verbatim>\<open>OverflowError\<close>.\<close>

lemma coordinate_errors_at_raises:
  "coordinate_errors_at sf ev actions i a = Inl e \<longleftrightarrow>
     e = OverflowError \<and>
     (\<exists>vx vy. aget a ''x'' = Some vx \<and> aget a ''y'' = Some vy \<and>
        (py_float sf vx = Inl OverflowError \<or>
         (\<exists>x. py_float sf vx = Inr x) \<and> py_float sf vy = Inl OverflowError))"
  by (auto simp: coordinate_errors_at_def split: option.splits sum.splits py_error.splits)

lemma coordinate_errors_from_raises:
  "coordinate_errors_from sf ev actions i rest = Inl e \<Longrightarrow>
     e = OverflowError \<and>
     (\<exists>a \<in> set rest. \<exists>v. (aget a ''x'' = Some v \<or> aget a ''y'' = Some v) \<and>
        py_float sf v = Inl OverflowError)"
proof (induction rest arbitrary: i)
  case Nil
  then show ?case by simp
next
  case (Cons a rest)
  show ?case
  proof (cases "coordinate_errors_at sf ev actions i a")
    case (Inl e')
    with Cons.prems have "e' = e" by simp
    with Inl show ?thesis by (auto simp: coordinate_errors_at_raises)
  next
    case (Inr es)
    with Cons.prems have "coordinate_errors_from sf ev actions (Suc i) rest = Inl e"
      by (simp split: sum.splits)
    from Cons.IH [OF this] show ?thesis by auto
  qed
qed

text \<open>The check returns on every log whose numeric coordinates are inside the range of
  \<^verbatim>\<open>float\<close>, whatever else the log holds.\<close>

lemma check_coordinate_errors_returns:
  assumes "\<And>a r. a \<in> set actions \<Longrightarrow> aget a ''x'' = Some (PNum r) \<or> aget a ''y'' = Some (PNum r)
             \<Longrightarrow> - float_limit < r \<and> r < float_limit"
  shows "\<exists>E. check_coordinate_errors sf ev actions = Inr E"
proof (cases "check_coordinate_errors sf ev actions")
  case (Inl e)
  then obtain a v where "a \<in> set actions" "aget a ''x'' = Some v \<or> aget a ''y'' = Some v"
    "py_float sf v = Inl OverflowError"
    unfolding check_coordinate_errors_def by (blast dest: coordinate_errors_from_raises)
  with assms show ?thesis by (auto simp: py_float_overflow)
next
  case (Inr E)
  then show ?thesis by blast
qed

text \<open>What the check returns is the concatenation of what each iteration appended, and
  every entry carries the index of its action.\<close>

lemma coordinate_errors_from_member:
  "coordinate_errors_from sf ev actions i rest = Inr E \<Longrightarrow>
   e \<in> set E \<longleftrightarrow>
     (\<exists>j<length rest. \<exists>es. coordinate_errors_at sf ev actions (i + j) (rest ! j) = Inr es \<and>
        e \<in> set es)"
proof (induction rest arbitrary: i E)
  case Nil
  then show ?case by simp
next
  case (Cons a rest)
  from Cons.prems obtain es later where
    a: "coordinate_errors_at sf ev actions i a = Inr es"
    and r: "coordinate_errors_from sf ev actions (Suc i) rest = Inr later"
    and E: "E = es @ later"
    by (auto split: sum.splits)
  have IH: "e \<in> set later \<longleftrightarrow>
     (\<exists>j<length rest. \<exists>es. coordinate_errors_at sf ev actions (Suc i + j) (rest ! j) = Inr es \<and>
        e \<in> set es)"
    by (rule Cons.IH [OF r])
  show ?case
  proof
    assume "e \<in> set E"
    then consider "e \<in> set es" | "e \<in> set later" using E by auto
    then show "\<exists>j<length (a # rest). \<exists>es.
        coordinate_errors_at sf ev actions (i + j) ((a # rest) ! j) = Inr es \<and> e \<in> set es"
    proof cases
      case 1
      with a have "coordinate_errors_at sf ev actions (i + 0) ((a # rest) ! 0) = Inr es \<and> e \<in> set es"
        by simp
      then show ?thesis by blast
    next
      case 2
      with IH obtain j es' where "j < length rest"
        "coordinate_errors_at sf ev actions (Suc i + j) (rest ! j) = Inr es'" "e \<in> set es'"
        by blast
      then have "Suc j < length (a # rest) \<and>
        coordinate_errors_at sf ev actions (i + Suc j) ((a # rest) ! Suc j) = Inr es' \<and> e \<in> set es'"
        by simp
      then show ?thesis by blast
    qed
  next
    assume "\<exists>j<length (a # rest). \<exists>es.
        coordinate_errors_at sf ev actions (i + j) ((a # rest) ! j) = Inr es \<and> e \<in> set es"
    then obtain j es' where j: "j < length (a # rest)"
      "coordinate_errors_at sf ev actions (i + j) ((a # rest) ! j) = Inr es'" "e \<in> set es'"
      by blast
    show "e \<in> set E"
    proof (cases j)
      case 0
      with j a E show ?thesis by simp
    next
      case (Suc k)
      with j have "k < length rest"
        "coordinate_errors_at sf ev actions (Suc i + k) (rest ! k) = Inr es'" by simp_all
      with IH j(3) have "e \<in> set later" by blast
      with E show ?thesis by simp
    qed
  qed
qed

lemma coordinate_errors_at_index:
  "dindex e = Some (int j)"
  if "coordinate_errors_at sf ev actions j a = Inr es" "e \<in> set es"
  using that
  by (auto simp: coordinate_errors_at_def bounds_errors_def invalid_coordinates_error_def
      screen_bounds_error_def canvas_bounds_error_def
      split: option.splits sum.splits py_error.splits if_splits)

lemma coordinate_errors_at_numeric:
  assumes "aget a ''x'' = Some vx" "aget a ''y'' = Some vy"
    "py_float sf vx = Inr x" "py_float sf vy = Inr y"
  shows "coordinate_errors_at sf ev actions i a = Inr (bounds_errors ev actions i a x y)"
  using assms by (simp add: coordinate_errors_at_def)

text \<open>
  Where the check returns, the comparison is as C9 describes it. Take any action of the
  log that has both coordinates, converting to the numbers \<open>x\<close> and \<open>y\<close>. The list
  returned holds a screen-bounds \<^verbatim>\<open>COORDINATE_ERROR\<close> for its index exactly when \<open>x\<close> or
  \<open>y\<close> lies strictly outside [0, 1500] and [0, 900]: the bounds themselves are accepted.
  For an action other than \<^verbatim>\<open>mouseDown\<close> (which has a canvas check of its own) that is
  the only \<^verbatim>\<open>COORDINATE_ERROR\<close> it can get.
\<close>

lemma screen_bounds_inclusive:
  assumes "check_coordinate_errors sf ev actions = Inr E"
    and "i < length actions"
    and "aget (actions ! i) ''x'' = Some vx" and "aget (actions ! i) ''y'' = Some vy"
    and "py_float sf vx = Inr x" and "py_float sf vy = Inr y"
  shows "((\<exists>e \<in> set E.
             dtype e = ''COORDINATE_ERROR'' \<and> dindex e = Some (int i) \<and>
             is_screen_message (dmessage e))
          \<longleftrightarrow> x < 0 \<or> 1500 < x \<or> y < 0 \<or> 900 < y) \<and>
         (\<not> act_is (actions ! i) ''mouseDown'' \<longrightarrow>
          ((\<exists>e \<in> set E. dtype e = ''COORDINATE_ERROR'' \<and> dindex e = Some (int i))
           \<longleftrightarrow> x < 0 \<or> 1500 < x \<or> y < 0 \<or> 900 < y))"
proof -
  let ?here = "bounds_errors ev actions i (actions ! i) x y"
  have here: "coordinate_errors_at sf ev actions i (actions ! i) = Inr ?here"
    using assms(3-6) by (rule coordinate_errors_at_numeric)
  have member: "e \<in> set E \<longleftrightarrow>
     (\<exists>j<length actions. \<exists>es. coordinate_errors_at sf ev actions (0 + j) (actions ! j) = Inr es \<and>
        e \<in> set es)" for e
    using assms(1) unfolding check_coordinate_errors_def by (rule coordinate_errors_from_member)
  have at_i: "e \<in> set E \<and> dindex e = Some (int i) \<longleftrightarrow> e \<in> set ?here" for e
  proof
    assume "e \<in> set E \<and> dindex e = Some (int i)"
    then obtain j es where j: "j < length actions"
      "coordinate_errors_at sf ev actions j (actions ! j) = Inr es" "e \<in> set es"
      and "dindex e = Some (int i)"
      by (auto simp: member)
    then have "j = i" using coordinate_errors_at_index [OF j(2,3)] by simp
    with j here show "e \<in> set ?here" by simp
  next
    assume e: "e \<in> set ?here"
    with here assms(2) have "e \<in> set E" by (auto simp: member)
    moreover have "dindex e = Some (int i)" using here e by (rule coordinate_errors_at_index)
    ultimately show "e \<in> set E \<and> dindex e = Some (int i)" by simp
  qed
  have screen: "(\<exists>e \<in> set E. dtype e = ''COORDINATE_ERROR'' \<and> dindex e = Some (int i) \<and>
             is_screen_message (dmessage e))
          \<longleftrightarrow> x < 0 \<or> 1500 < x \<or> y < 0 \<or> 900 < y"
  proof -
    have "(\<exists>e \<in> set E. dtype e = ''COORDINATE_ERROR'' \<and> dindex e = Some (int i) \<and>
             is_screen_message (dmessage e)) \<longleftrightarrow>
          (\<exists>e \<in> set ?here. dtype e = ''COORDINATE_ERROR'' \<and> is_screen_message (dmessage e))"
      using at_i by blast
    also have "\<dots> \<longleftrightarrow> x < 0 \<or> 1500 < x \<or> y < 0 \<or> 900 < y"
      by (auto simp: bounds_errors_def screen_bounds_error_def canvas_bounds_error_def
          screen_bounds_message_def canvas_bounds_message_def)
    finally show ?thesis .
  qed
  have other: "(\<exists>e \<in> set E. dtype e = ''COORDINATE_ERROR'' \<and> dindex e = Some (int i))
           \<longleftrightarrow> x < 0 \<or> 1500 < x \<or> y < 0 \<or> 900 < y"
    if "\<not> act_is (actions ! i) ''mouseDown''"
  proof -
    have "(\<exists>e \<in> set E. dtype e = ''COORDINATE_ERROR'' \<and> dindex e = Some (int i)) \<longleftrightarrow>
          (\<exists>e \<in> set ?here. dtype e = ''COORDINATE_ERROR'')"
      using at_i by blast
    also have "\<dots> \<longleftrightarrow> x < 0 \<or> 1500 < x \<or> y < 0 \<or> 900 < y"
      using that by (auto simp: bounds_errors_def screen_bounds_error_def)
    finally show ?thesis .
  qed
  from screen other show ?thesis by blast
qed

text \<open>The two boundary cases of the specification: \<open>(1500, 900)\<close> is accepted and
  \<open>(1500.0001, 900)\<close> is reported.\<close>

lemma screen_bounds_boundary:
  "\<exists>E. check_coordinate_errors (\<lambda>s. None) example_layout
          [dict_items (moveTo 1500 900), dict_items (moveTo 1500.0001 900)] = Inr E \<and>
       (\<exists>e \<in> set E. dtype e = ''COORDINATE_ERROR'' \<and> dindex e = Some 1) \<and>
       \<not> (\<exists>e \<in> set E. dtype e = ''COORDINATE_ERROR'' \<and> dindex e = Some 0)"
proof -
  let ?acts = "[dict_items (moveTo 1500 900), dict_items (moveTo 1500.0001 900)]"
  have "\<exists>E. check_coordinate_errors (\<lambda>s. None) example_layout ?acts = Inr E"
    using below_float_limit [of "1500.0001"] above_float_limit [of "1500.0001"]
    by (intro check_coordinate_errors_returns)
       (auto simp: moveTo_def aget_def below_float_limit above_float_limit)
  then obtain E where E: "check_coordinate_errors (\<lambda>s. None) example_layout ?acts = Inr E"
    by blast
  have one: "(1::nat) < length ?acts" "aget (?acts ! 1) ''x'' = Some (PNum 1500.0001)"
    "aget (?acts ! 1) ''y'' = Some (PNum 900)"
    "py_float (\<lambda>s. None) (PNum 1500.0001) = Inr 1500.0001"
    "py_float (\<lambda>s. None) (PNum 900) = Inr 900"
    "\<not> act_is (?acts ! 1) ''mouseDown''"
    using below_float_limit [of "1500.0001"] above_float_limit [of "1500.0001"]
    by (simp_all add: moveTo_def aget_def act_is_def below_float_limit above_float_limit)
  have zero: "(0::nat) < length ?acts" "aget (?acts ! 0) ''x'' = Some (PNum 1500)"
    "aget (?acts ! 0) ''y'' = Some (PNum 900)"
    "py_float (\<lambda>s. None) (PNum 1500) = Inr 1500"
    "py_float (\<lambda>s. None) (PNum 900) = Inr 900"
    "\<not> act_is (?acts ! 0) ''mouseDown''"
    by (simp_all add: moveTo_def aget_def act_is_def below_float_limit above_float_limit)
  from screen_bounds_inclusive [OF E one(1-5)] one(6)
       screen_bounds_inclusive [OF E zero(1-5)] zero(6)
  have "(\<exists>e \<in> set E. dtype e = ''COORDINATE_ERROR'' \<and> dindex e = Some 1) \<and>
       \<not> (\<exists>e \<in> set E. dtype e = ''COORDINATE_ERROR'' \<and> dindex e = Some 0)"
    by simp
  with E show ?thesis by blast
qed

text \<open>
  C9 at a failing input. The log holds one \<^verbatim>\<open>moveTo\<close> whose \<open>x\<close> is the integer
  \<open>10 ^ 400\<close>, a coordinate strictly outside [0, 1500]. \<^verbatim>\<open>float\<close> raises \<^verbatim>\<open>OverflowError\<close> on
  it, the \<^verbatim>\<open>except (ValueError, TypeError)\<close> around the conversion does not catch that,
  and so \<^verbatim>\<open>_check_coordinate_errors\<close> raises instead of reporting a \<^verbatim>\<open>COORDINATE_ERROR\<close>
  for the action, and \<open>evaluate\<close> with it, for every layout and criteria.
\<close>

theorem screen_bounds_overflow:
  "check_coordinate_errors sf ev [dict_items (moveTo (10 ^ 400) 0)] = Inl OverflowError \<and>
   evaluate sf ev (PList [moveTo (10 ^ 400) 0]) c = Inl OverflowError"
  by (simp add: evaluate_def evaluate_list_def count_actions_def counts0_def bump_def Let_def
      check_coordinate_errors_def coordinate_errors_at_def moveTo_def aget_def float_limit_def)

theorem screen_bounds_overflow_witness:
  "evaluate (\<lambda>s. None) example_layout (PList [moveTo (10 ^ 400) 0]) None = Inl OverflowError"
  using screen_bounds_overflow [of "\<lambda>s. None" example_layout None] by simp

section \<open>Coverage penalty\<close>

text \<open>
  C7. Let the criteria results hold a failed accurate-coverage check, with the actual
  accurate coverage at most the required one (as \<^verbatim>\<open>_check_criteria\<close> sets the flag). Then
  the score is the finished sum in which the proportional penalty
  \<open>(required - actual) / required * 0.12\<close> is subtracted, and nothing when the required
  coverage is 0. When the accurate check is absent and the bounding-box check failed,
  the flat 0.12 is subtracted instead.
\<close>

theorem coverage_penalty_subtracted:
  "(criteria_met r = Some cm \<and> color_penalty r cm = Inr cp \<and>
    map_of cm ''min_coverage_accurate_met'' = Some (PBool False) \<and>
    results_min_coverage r = Some required \<and> 0 \<le> required \<and>
    map_of (metrics r) ''canvas_coverage_accurate'' = Some (PNum actual) \<and>
    actual \<le> required
    \<longrightarrow> calculate_score r =
          Inr (finish_score (total_actions r)
                 (1 - tool_penalties cm - cp - segment_penalty cm
                    - (if required = 0 then 0 else (required - actual) / required * 0.12)
                    - real (length (errors r)) * 0.08 - real (length (warnings r)) * 0.02))) \<and>
   (criteria_met r = Some cm \<and> color_penalty r cm = Inr cp \<and>
    map_of cm ''min_coverage_accurate_met'' = None \<and>
    map_of cm ''min_coverage_met'' = Some (PBool False)
    \<longrightarrow> calculate_score r =
          Inr (finish_score (total_actions r)
                 (1 - tool_penalties cm - cp - segment_penalty cm - 0.12
                    - real (length (errors r)) * 0.08 - real (length (warnings r)) * 0.02)))"
proof (intro conjI impI)
  assume a: "criteria_met r = Some cm \<and> color_penalty r cm = Inr cp \<and>
    map_of cm ''min_coverage_accurate_met'' = Some (PBool False) \<and>
    results_min_coverage r = Some required \<and> 0 \<le> required \<and>
    map_of (metrics r) ''canvas_coverage_accurate'' = Some (PNum actual) \<and>
    actual \<le> required"
  then have "coverage_penalty r cm =
     Inr (if required = 0 then 0 else (required - actual) / required * 0.12)"
    by (auto simp: coverage_penalty_def dget_def)
  with a show "calculate_score r =
          Inr (finish_score (total_actions r)
                 (1 - tool_penalties cm - cp - segment_penalty cm
                    - (if required = 0 then 0 else (required - actual) / required * 0.12)
                    - real (length (errors r)) * 0.08 - real (length (warnings r)) * 0.02))"
    by (simp add: calculate_score_def)
next
  assume a: "criteria_met r = Some cm \<and> color_penalty r cm = Inr cp \<and>
    map_of cm ''min_coverage_accurate_met'' = None \<and>
    map_of cm ''min_coverage_met'' = Some (PBool False)"
  then have "coverage_penalty r cm = Inr 0.12"
    by (auto simp: coverage_penalty_def dget_def)
  with a show "calculate_score r =
          Inr (finish_score (total_actions r)
                 (1 - tool_penalties cm - cp - segment_penalty cm - 0.12
                    - real (length (errors r)) * 0.08 - real (length (warnings r)) * 0.02))"
    by (simp add: calculate_score_def)
qed

text \<open>A result dictionary with a required coverage of 0.01, an accurate coverage of
  0.005 and the given criteria results.\<close>

definition coverage_results :: "(string \<times> pyval) list \<Rightarrow> results" where
  "coverage_results cm =
     \<lparr>total_actions = 4, action_breakdown = [], errors = [], warnings = [],
      metrics = [(''canvas_coverage_accurate'', PNum 0.005)],
      criteria_met = Some cm, colors_required = None, results_min_coverage = Some 0.01\<rparr>"

theorem coverage_penalty_subtracted_witness:
  "calculate_score (coverage_results [(''min_coverage_accurate_met'', PBool False)]) = Inr 0.94 \<and>
   calculate_score (coverage_results [(''min_coverage_met'', PBool False)]) = Inr 0.88"
proof -
  let ?r1 = "coverage_results [(''min_coverage_accurate_met'', PBool False)]"
  let ?r2 = "coverage_results [(''min_coverage_met'', PBool False)]"
  have 1: "criteria_met ?r1 = Some [(''min_coverage_accurate_met'', PBool False)] \<and>
    color_penalty ?r1 [(''min_coverage_accurate_met'', PBool False)] = Inr 0 \<and>
    map_of [(''min_coverage_accurate_met'', PBool False)] ''min_coverage_accurate_met'' =
      Some (PBool False) \<and>
    results_min_coverage ?r1 = Some 0.01 \<and> (0::real) \<le> 0.01 \<and>
    map_of (metrics ?r1) ''canvas_coverage_accurate'' = Some (PNum 0.005) \<and>
    (0.005::real) \<le> 0.01"
    by (simp add: coverage_results_def color_penalty_def dget_def)
  have 2: "criteria_met ?r2 = Some [(''min_coverage_met'', PBool False)] \<and>
    color_penalty ?r2 [(''min_coverage_met'', PBool False)] = Inr 0 \<and>
    map_of [(''min_coverage_met'', PBool False)] ''min_coverage_accurate_met'' = None \<and>
    map_of [(''min_coverage_met'', PBool False)] ''min_coverage_met'' = Some (PBool False)"
    by (simp add: coverage_results_def color_penalty_def dget_def)
  have "calculate_score ?r1 = Inr (finish_score 4 (1 - 0 - 0 - 0 - 0.06 - 0 - 0))"
    using coverage_penalty_subtracted [of ?r1 "[(''min_coverage_accurate_met'', PBool False)]"
        0 "0.01" "0.005"] 1
    by (simp add: coverage_results_def tool_penalties_def tool_penalty_of_def
        segment_penalty_def dget_def endswith_def)
  moreover have "calculate_score ?r2 = Inr (finish_score 4 (1 - 0 - 0 - 0 - 0.12 - 0 - 0))"
    using coverage_penalty_subtracted [of ?r2 "[(''min_coverage_met'', PBool False)]" 0] 2
    by (simp add: coverage_results_def tool_penalties_def tool_penalty_of_def
        segment_penalty_def dget_def endswith_def)
  ultimately show ?thesis
    by (simp add: finish_score_def py_round_def)
qed

section \<open>Spatial accuracy\<close>

text \<open>The region \<^verbatim>\<open>evaluate\<close> hands to \<^verbatim>\<open>_evaluate_spatial_accuracy\<close>: present when the
  criteria are given, hold a prompt, and a region keyword is found in it.\<close>

definition detected_region :: "criteria option \<Rightarrow> string option" where
  "detected_region c =
     (if given c then (case prompt (the c) of Some p \<Rightarrow> extract_spatial_constraints p | None \<Rightarrow> None)
      else None)"

lemma if_Some_cases: "(if b then Some a else e) = Some r \<Longrightarrow> r = a \<or> e = Some r"
  by (simp split: if_splits)

lemma extract_region_names:
  assumes "extract_spatial_constraints p = Some region"
  shows "region \<in> set [''top-left'', ''top'', ''top-right'', ''left'', ''center'', ''right'',
      ''bottom-left'', ''bottom'', ''bottom-right'']"
proof -
  from assms have "p \<noteq> []" by (auto simp: extract_spatial_constraints_def)
  with assms show ?thesis
    unfolding extract_spatial_constraints_def Let_def
    by (auto dest!: if_Some_cases)
qed

lemma extract_region_known:
  assumes "extract_spatial_constraints p = Some region"
  shows "\<exists>t. map_of (region_centers ev) region = Some t"
proof -
  have "map fst (region_centers ev) =
      [''top-left'', ''top'', ''top-right'', ''left'', ''center'', ''right'',
       ''bottom-left'', ''bottom'', ''bottom-right'']"
    by (simp add: region_centers_def Let_def)
  with extract_region_names [OF assms] have "region \<in> set (map fst (region_centers ev))"
    by simp
  then have "region \<in> fst ` set (region_centers ev)" by simp
  then show ?thesis by (meson map_of_eq_None_iff not_None_eq)
qed

lemma evaluate_list_spatial:
  assumes "evaluate_list sf ev raw c = Inr r"
  shows "\<exists>sp. spatial_metrics ev (map dict_items raw) c = Inr sp \<and>
              map_of (metrics r) ''spatial_accuracy'' = Some (fst sp)"
  using assms by (auto simp: evaluate_list_def ebind_eq_Inr Let_def results.defs)

lemma spatial_metrics_none:
  assumes "detected_region c = None" "spatial_metrics ev actions c = Inr sp"
  shows "fst sp = PNone"
  using assms by (auto simp: spatial_metrics_def detected_region_def split: option.splits if_splits)

lemma spatial_metrics_region:
  assumes "detected_region c = Some region" "spatial_metrics ev actions c = Inr sp"
  shows "\<exists>acc. evaluate_spatial_accuracy ev actions (Some region) = Inr acc \<and> fst sp = opt_num acc"
  using assms
  by (auto simp: spatial_metrics_def detected_region_def ebind_eq_Inr split: option.splits if_splits)

text \<open>
  C8, as the code has it. In a result of \<open>evaluate\<close> on a list, the metric
  \<^verbatim>\<open>spatial_accuracy\<close> is null when no region is detected. When a region is detected and
  the drawing centroid is undefined, it is 0 (not null). When a region is detected and
  the centroid is \<open>(cx, cy)\<close>, it is 1 minus the distance from the centroid to the
  region's centre over the canvas diagonal, and at least 0.
\<close>

theorem spatial_accuracy_metric:
  assumes "evaluate sf ev (PList raw) c = Inr r"
  shows "(detected_region c = None \<longrightarrow> map_of (metrics r) ''spatial_accuracy'' = Some PNone) \<and>
         (\<forall>region. detected_region c = Some region \<and>
             calculate_drawing_centroid ev (map dict_items raw) = Inr None
             \<longrightarrow> map_of (metrics r) ''spatial_accuracy'' = Some (PNum 0)) \<and>
         (\<forall>region cx cy. detected_region c = Some region \<and>
             calculate_drawing_centroid ev (map dict_items raw) = Inr (Some (cx, cy))
             \<longrightarrow> (\<exists>tx ty. map_of (region_centers ev) region = Some (tx, ty) \<and>
                    map_of (metrics r) ''spatial_accuracy'' =
                      Some (PNum (max 0 (1 - sqrt ((cx - tx)\<^sup>2 + (cy - ty)\<^sup>2) /
                                          sqrt ((canvas_width ev)\<^sup>2 + (canvas_height ev)\<^sup>2))))))"
proof -
  from assms have "evaluate_list sf ev raw c = Inr r" by (simp add: evaluate_def)
  then obtain sp where sp: "spatial_metrics ev (map dict_items raw) c = Inr sp"
    and m: "map_of (metrics r) ''spatial_accuracy'' = Some (fst sp)"
    using evaluate_list_spatial by blast
  have none: "map_of (metrics r) ''spatial_accuracy'' = Some PNone" if "detected_region c = None"
    using spatial_metrics_none [OF that sp] m by simp
  have undefined_centroid: "map_of (metrics r) ''spatial_accuracy'' = Some (PNum 0)"
    if "detected_region c = Some region"
      "calculate_drawing_centroid ev (map dict_items raw) = Inr None" for region
  proof -
    from spatial_metrics_region [OF that(1) sp] obtain acc where
      "evaluate_spatial_accuracy ev (map dict_items raw) (Some region) = Inr acc"
      "fst sp = opt_num acc" by blast
    with that(2) have "fst sp = PNum 0"
      by (auto simp: evaluate_spatial_accuracy_def opt_num_def)
    with m show ?thesis by simp
  qed
  have centroid: "\<exists>tx ty. map_of (region_centers ev) region = Some (tx, ty) \<and>
      map_of (metrics r) ''spatial_accuracy'' =
        Some (PNum (max 0 (1 - sqrt ((cx - tx)\<^sup>2 + (cy - ty)\<^sup>2) /
                            sqrt ((canvas_width ev)\<^sup>2 + (canvas_height ev)\<^sup>2))))"
    if "detected_region c = Some region"
      "calculate_drawing_centroid ev (map dict_items raw) = Inr (Some (cx, cy))"
    for region cx cy
  proof -
    from spatial_metrics_region [OF that(1) sp] obtain acc where
      acc: "evaluate_spatial_accuracy ev (map dict_items raw) (Some region) = Inr acc"
      "fst sp = opt_num acc" by blast
    from that(1) obtain p where "extract_spatial_constraints p = Some region"
      by (auto simp: detected_region_def split: if_splits option.splits)
    then obtain t where t: "map_of (region_centers ev) region = Some t"
      using extract_region_known by blast
    from acc(1) that(2) t have
      "acc = Some (max 0 (1 - sqrt ((cx - fst t)\<^sup>2 + (cy - snd t)\<^sup>2) /
                            sqrt ((canvas_width ev)\<^sup>2 + (canvas_height ev)\<^sup>2)))"
      by (auto simp: evaluate_spatial_accuracy_def py_div_def ebind_eq_Inr split: if_splits)
    with acc(2) m t show ?thesis
      by (cases t) (auto simp: opt_num_def)
  qed
  from none undefined_centroid centroid show ?thesis by blast
qed

text \<open>Criteria that hold a prompt and nothing else.\<close>

definition prompt_only :: "string \<Rightarrow> criteria" where
  "prompt_only p =
     \<lparr>required_tools = None, required_colors = None, min_segments = None,
      min_coverage = None, prompt = Some p, other_keys = False\<rparr>"

lemma centre_evaluates:
  "\<exists>r. evaluate (\<lambda>s. None) example_layout
          (PList [moveTo 590 420, PDict [(''action'', PStr ''mouseDown'')]])
          (Some (prompt_only ''a dot in the center'')) = Inr r"
  by (simp add: example_defs eval_defs prompt_only_def extract_spatial_constraints_def
      py_lower_def evaluate_spatial_accuracy_def calculate_drawing_centroid_def
      point_on_canvas_def region_centers_def)

theorem spatial_accuracy_metric_witness:
  "\<exists>r. evaluate (\<lambda>s. None) example_layout
          (PList [moveTo 590 420, PDict [(''action'', PStr ''mouseDown'')]])
          (Some (prompt_only ''a dot in the center'')) = Inr r \<and>
       map_of (metrics r) ''spatial_accuracy'' = Some (PNum 1)"
proof -
  obtain r where r: "evaluate (\<lambda>s. None) example_layout
          (PList [moveTo 590 420, PDict [(''action'', PStr ''mouseDown'')]])
          (Some (prompt_only ''a dot in the center'')) = Inr r"
    using centre_evaluates by blast
  have region: "detected_region (Some (prompt_only ''a dot in the center'')) = Some ''center''"
    by (simp add: detected_region_def given_def prompt_only_def extract_spatial_constraints_def
        py_lower_def)
  have centroid: "calculate_drawing_centroid example_layout
      (map dict_items [moveTo 590 420, PDict [(''action'', PStr ''mouseDown'')]]) =
      Inr (Some (500, 350))"
    by (simp add: calculate_drawing_centroid_def example_defs act_is_def aget_def get_none_def
        point_on_canvas_def)
  from spatial_accuracy_metric [OF r] region centroid
  obtain tx ty where "map_of (region_centers example_layout) ''center'' = Some (tx, ty)"
    and m: "map_of (metrics r) ''spatial_accuracy'' =
        Some (PNum (max 0 (1 - sqrt ((500 - tx)\<^sup>2 + (350 - ty)\<^sup>2) /
              sqrt ((canvas_width example_layout)\<^sup>2 + (canvas_height example_layout)\<^sup>2))))"
    by blast
  then have "tx = 500" "ty = 350"
    by (simp_all add: region_centers_def example_layout_def)
  with m r show ?thesis by simp
qed

text \<open>The claim's "null if no drawing" fails: with a region named in the prompt and an
  empty log, the centroid is undefined and the metric is 0.\<close>

theorem spatial_accuracy_null_counterexample:
  "\<exists>r. evaluate (\<lambda>s. None) example_layout (PList []) (Some (prompt_only ''a sun at the top'')) =
          Inr r \<and>
       calculate_drawing_centroid example_layout [] = Inr None \<and>
       map_of (metrics r) ''spatial_accuracy'' = Some (PNum 0)"
  by (simp add: example_defs eval_defs prompt_only_def extract_spatial_constraints_def
      py_lower_def evaluate_spatial_accuracy_def calculate_drawing_centroid_def)

section \<open>The accurate-coverage loop\<close>

lemma first_tool_hit_numeric: "\<exists>h. first_tool_hit (PNum x) (PNum y) ts = Inr h"
  by (induction ts) (auto simp: near_tool_def)

lemma mark_points_finite: "mark_points err ev ps = Inr g \<Longrightarrow> finite g"
  by (induction ps arbitrary: g) (auto split: if_splits sum.splits)

lemma fill_shape_finite:
  assumes "fill_shape_in_grid ev tool p q = Inr g"
  shows "finite g"
proof -
  from assms obtain x1 y1 x2 y2 where
    g: "(let cx1 = x1 - canvas_offset_x ev; cy1 = y1 - canvas_offset_y ev;
            cx2 = x2 - canvas_offset_x ev; cy2 = y2 - canvas_offset_y ev
        in if tool = ''rectangle'' then
             ebind (py_div (min cx1 cx2) (canvas_width ev)) (\<lambda>q1.
             ebind (py_div (max cx1 cx2) (canvas_width ev)) (\<lambda>q2.
             ebind (py_div (min cy1 cy2) (canvas_height ev)) (\<lambda>q3.
             ebind (py_div (max cy1 cy2) (canvas_height ev)) (\<lambda>q4.
               (let min_gx = max 0 (py_int (q1 * 20)); max_gx = min 19 (py_int (q2 * 20));
                    min_gy = max 0 (py_int (q3 * 20)); max_gy = min 19 (py_int (q4 * 20))
                in Inr ({min_gy..max_gy} \<times> {min_gx..max_gx}))))))
           else if tool = ''circle'' then
             mark_points ValueError ev
               (circle_points cx1 cy1 (sqrt ((cx2 - cx1)\<^sup>2 + (cy2 - cy1)\<^sup>2)))
           else if tool = ''line'' then
             mark_points ZeroDivisionError ev (line_points cx1 cy1 cx2 cy2)
           else Inr {}) = Inr g"
    unfolding fill_shape_in_grid_def ebind_eq_Inr by blast
  show ?thesis
  proof (cases "tool = ''rectangle''")
    case True
    with g obtain a b c d :: int where "g = {a..b} \<times> {c..d}"
      by (auto simp: Let_def ebind_eq_Inr)
    then show ?thesis by simp
  next
    case False
    with g show ?thesis
      unfolding Let_def by (auto dest: mark_points_finite split: if_splits)
  qed
qed

text \<open>States that agree but for the grid, the second holding every cell of the first.\<close>

definition grid_below :: "drawing_state \<Rightarrow> drawing_state \<Rightarrow> bool" where
  "grid_below s t \<longleftrightarrow>
     is_drawing t = is_drawing s \<and> current_tool t = current_tool s \<and>
     mouse_down_pos t = mouse_down_pos s \<and> last_pos t = last_pos s \<and> grid s \<subseteq> grid t"

lemma press_release_mono:
  assumes "grid_below s t" "press_release ev s a = Inr s'"
  shows "\<exists>t'. press_release ev t a = Inr t' \<and> grid_below s' t'"
proof (cases "fill_shape_in_grid ev (current_tool s) (the (mouse_down_pos s))
                (if has_xy a then (get_none a ''x'', get_none a ''y'') else last_pos s)")
  case (Inl e)
  with assms show ?thesis
    by (auto simp: press_release_def grid_below_def split: if_splits)
next
  case (Inr cells)
  with assms show ?thesis
    by (auto simp: press_release_def grid_below_def split: if_splits)
qed

lemma press_release_grid:
  assumes "press_release ev s a = Inr s'"
  shows "grid s \<subseteq> grid s' \<and> (finite (grid s) \<longrightarrow> finite (grid s'))"
proof (cases "fill_shape_in_grid ev (current_tool s) (the (mouse_down_pos s))
                (if has_xy a then (get_none a ''x'', get_none a ''y'') else last_pos s)")
  case (Inl e)
  with assms show ?thesis
    by (auto simp: press_release_def split: if_splits)
next
  case (Inr cells)
  then have "finite cells" by (rule fill_shape_finite)
  with Inr assms show ?thesis
    by (auto simp: press_release_def split: if_splits)
qed

lemma pen_mark_mono:
  assumes "grid_below s t" "pen_mark ev s a = Inr s'"
  shows "\<exists>t'. pen_mark ev t a = Inr t' \<and> grid_below s' t'"
proof (cases "canvas_point ev a")
  case (Inl e)
  with assms show ?thesis
    by (auto simp: pen_mark_def grid_below_def split: if_splits)
next
  case p: (Inr p)
  show ?thesis
  proof (cases "cell_of ZeroDivisionError ev (fst p) (snd p)")
    case (Inl e)
    with p assms show ?thesis
      by (auto simp: pen_mark_def grid_below_def split: if_splits)
  next
    case (Inr c)
    with p assms show ?thesis
      by (auto simp: pen_mark_def grid_below_def split: if_splits)
  qed
qed

lemma pen_mark_grid:
  assumes "pen_mark ev s a = Inr s'"
  shows "grid s \<subseteq> grid s' \<and> (finite (grid s) \<longrightarrow> finite (grid s'))"
proof (cases "canvas_point ev a")
  case (Inl e)
  with assms show ?thesis
    by (auto simp: pen_mark_def split: if_splits)
next
  case p: (Inr p)
  show ?thesis
  proof (cases "cell_of ZeroDivisionError ev (fst p) (snd p)")
    case (Inl e)
    with p assms show ?thesis
      by (auto simp: pen_mark_def split: if_splits)
  next
    case (Inr c)
    with p assms show ?thesis
      by (auto simp: pen_mark_def split: if_splits)
  qed
qed

lemma accurate_step_parts:
  assumes "accurate_step ev s a n = Inr s'"
  obtains h s2 where "select_tool ev a n = Inr h"
    and "press_release ev
           (case h of Some tn \<Rightarrow>
              (if has_xy a then s\<lparr>last_pos := (get_none a ''x'', get_none a ''y'')\<rparr> else s)
                \<lparr>current_tool := tn\<rparr>
            | None \<Rightarrow> (if has_xy a then s\<lparr>last_pos := (get_none a ''x'', get_none a ''y'')\<rparr> else s))
           a = Inr s2"
    and "pen_mark ev s2 a = Inr s'"
  using assms unfolding accurate_step_def Let_def ebind_eq_Inr by blast

lemma accurate_step_mono:
  assumes "grid_below s t" "accurate_step ev s a n = Inr s'"
  shows "\<exists>t'. accurate_step ev t a n = Inr t' \<and> grid_below s' t'"
proof -
  let ?s1 = "if has_xy a then s\<lparr>last_pos := (get_none a ''x'', get_none a ''y'')\<rparr> else s"
  let ?t1 = "if has_xy a then t\<lparr>last_pos := (get_none a ''x'', get_none a ''y'')\<rparr> else t"
  from assms(2) obtain h s2 where h: "select_tool ev a n = Inr h"
    and s2: "press_release ev (case h of Some tn \<Rightarrow> ?s1\<lparr>current_tool := tn\<rparr> | None \<Rightarrow> ?s1) a = Inr s2"
    and s': "pen_mark ev s2 a = Inr s'"
    by (rule accurate_step_parts)
  have "grid_below (case h of Some tn \<Rightarrow> ?s1\<lparr>current_tool := tn\<rparr> | None \<Rightarrow> ?s1)
                   (case h of Some tn \<Rightarrow> ?t1\<lparr>current_tool := tn\<rparr> | None \<Rightarrow> ?t1)"
    using assms(1) by (auto simp: grid_below_def split: option.splits)
  from press_release_mono [OF this s2] obtain t2 where
    t2: "press_release ev (case h of Some tn \<Rightarrow> ?t1\<lparr>current_tool := tn\<rparr> | None \<Rightarrow> ?t1) a = Inr t2"
    and b2: "grid_below s2 t2" by blast
  from pen_mark_mono [OF b2 s'] obtain t' where "pen_mark ev t2 a = Inr t'" "grid_below s' t'"
    by blast
  with h t2 show ?thesis
    by (simp add: accurate_step_def Let_def)
qed

lemma accurate_loop_mono:
  assumes "grid_below s t" "accurate_loop ev s xs = Inr s'"
  shows "\<exists>t'. accurate_loop ev t xs = Inr t' \<and> grid_below s' t'"
  using assms
proof (induction xs arbitrary: s t)
  case Nil
  then show ?case by simp
next
  case (Cons a xs)
  from Cons.prems(2) obtain s1 where s1: "accurate_step ev s a (next_is_click xs) = Inr s1"
    and rest: "accurate_loop ev s1 xs = Inr s'"
    by (auto split: sum.splits)
  from accurate_step_mono [OF Cons.prems(1) s1] obtain t1 where
    t1: "accurate_step ev t a (next_is_click xs) = Inr t1" and b: "grid_below s1 t1" by blast
  from Cons.IH [OF b rest] t1 show ?case by simp
qed

lemma accurate_step_grid:
  assumes "accurate_step ev s a n = Inr s'"
  shows "grid s \<subseteq> grid s' \<and> (finite (grid s) \<longrightarrow> finite (grid s'))"
proof -
  let ?s1 = "if has_xy a then s\<lparr>last_pos := (get_none a ''x'', get_none a ''y'')\<rparr> else s"
  from assms obtain h s2 where h: "select_tool ev a n = Inr h"
    and s2: "press_release ev (case h of Some tn \<Rightarrow> ?s1\<lparr>current_tool := tn\<rparr> | None \<Rightarrow> ?s1) a = Inr s2"
    and s': "pen_mark ev s2 a = Inr s'"
    by (rule accurate_step_parts)
  have "grid (case h of Some tn \<Rightarrow> ?s1\<lparr>current_tool := tn\<rparr> | None \<Rightarrow> ?s1) = grid s"
    by (simp split: option.splits)
  with press_release_grid [OF s2] pen_mark_grid [OF s'] show ?thesis by auto
qed

lemma accurate_loop_grid:
  assumes "accurate_loop ev s xs = Inr s'"
  shows "grid s \<subseteq> grid s' \<and> (finite (grid s) \<longrightarrow> finite (grid s'))"
  using assms
proof (induction xs arbitrary: s)
  case Nil
  then show ?case by simp
next
  case (Cons a xs)
  from Cons.prems obtain s1 where s1: "accurate_step ev s a (next_is_click xs) = Inr s1"
    and rest: "accurate_loop ev s1 xs = Inr s'"
    by (auto split: sum.splits)
  from accurate_step_grid [OF s1] Cons.IH [OF rest] show ?case by blast
qed

lemma coverage_grid_finite: "coverage_grid ev actions = Inr g \<Longrightarrow> finite g"
  using accurate_loop_grid [of ev initial_state actions]
  by (auto simp: coverage_grid_def ebind_eq_Inr initial_state_def)

lemma py_round_cells: "py_round 4 (real k / 400) = real k / 400"
proof -
  have "real k / 400 * 10 ^ 4 = of_int (25 * int k)" by simp
  then show ?thesis
    unfolding py_round_def Let_def by (simp only: floor_of_int) simp
qed

section \<open>The default tool\<close>

text \<open>What the tool-selection step of each iteration of the loop yields, in the order of
  the log.\<close>

fun selections :: "evaluator \<Rightarrow> action list \<Rightarrow> (py_error + string option) list" where
  "selections ev [] = []"
| "selections ev (a # rest) = select_tool ev a (next_is_click rest) # selections ev rest"

lemma length_selections [simp]: "length (selections ev xs) = length xs"
  by (induction xs) simp_all

lemma take_selections_append:
  "take (length xs + n) (selections ev (xs @ ys)) =
     take (length xs) (selections ev (xs @ ys)) @ take n (selections ev ys)"
  by (induction xs) simp_all

text \<open>One iteration inside an open pen segment, on an action that selects no tool and
  is no \<^verbatim>\<open>mouseUp\<close>.\<close>

lemma accurate_step_pen:
  assumes step: "accurate_step ev s a n = Inr s'"
    and a: "select_tool ev a n = Inr None" "\<not> act_is a ''mouseUp''"
    and s: "current_tool s = ''pen''" "is_drawing s \<or> act_is a ''mouseDown''"
  shows "current_tool s' = ''pen'' \<and> is_drawing s' \<and>
         (\<forall>x y. aget a ''x'' = Some (PNum x) \<and> aget a ''y'' = Some (PNum y) \<and>
                in_canvas ev (x - canvas_offset_x ev) (y - canvas_offset_y ev)
            \<longrightarrow> (\<exists>c. cell_of ZeroDivisionError ev (x - canvas_offset_x ev)
                         (y - canvas_offset_y ev) = Inr c \<and> c \<in> grid s'))"
proof -
  let ?s1 = "if has_xy a then s\<lparr>last_pos := (get_none a ''x'', get_none a ''y'')\<rparr> else s"
  from step obtain h s2 where h: "select_tool ev a n = Inr h"
    and s2: "press_release ev (case h of Some tn \<Rightarrow> ?s1\<lparr>current_tool := tn\<rparr> | None \<Rightarrow> ?s1) a = Inr s2"
    and s': "pen_mark ev s2 a = Inr s'"
    by (rule accurate_step_parts)
  from h a(1) have "h = None" by simp
  with s2 have "press_release ev ?s1 a = Inr s2" by simp
  with a(2) s have s2_state: "current_tool s2 = ''pen''" "is_drawing s2"
    by (auto simp: press_release_def split: if_splits)
  have marked: "\<exists>c. cell_of ZeroDivisionError ev (x - canvas_offset_x ev)
                         (y - canvas_offset_y ev) = Inr c \<and> c \<in> grid s'"
    if xy: "aget a ''x'' = Some (PNum x)" "aget a ''y'' = Some (PNum y)"
      and inside: "in_canvas ev (x - canvas_offset_x ev) (y - canvas_offset_y ev)" for x y
  proof -
    from xy have "has_xy a"
      and "canvas_point ev a = Inr (x - canvas_offset_x ev, y - canvas_offset_y ev)"
      by (simp_all add: has_xy_def canvas_point_def get_none_def)
    with s' s2_state inside show ?thesis
      by (cases "cell_of ZeroDivisionError ev (x - canvas_offset_x ev) (y - canvas_offset_y ev)")
         (auto simp: pen_mark_def)
  qed
  from s' s2_state have "current_tool s' = ''pen''" "is_drawing s'"
    by (auto simp: pen_mark_def ebind_eq_Inr split: if_splits)
  with marked show ?thesis by blast
qed

text \<open>Before the segment: nothing selects a tool, so the tool stays what it was.\<close>

lemma accurate_step_keeps_tool:
  assumes "accurate_step ev s a n = Inr s'" "select_tool ev a n = Inr None"
  shows "current_tool s' = current_tool s"
proof -
  let ?s1 = "if has_xy a then s\<lparr>last_pos := (get_none a ''x'', get_none a ''y'')\<rparr> else s"
  from assms(1) obtain h s2 where h: "select_tool ev a n = Inr h"
    and s2: "press_release ev (case h of Some tn \<Rightarrow> ?s1\<lparr>current_tool := tn\<rparr> | None \<Rightarrow> ?s1) a = Inr s2"
    and s': "pen_mark ev s2 a = Inr s'"
    by (rule accurate_step_parts)
  from h assms(2) have "h = None" by simp
  with s2 have "press_release ev ?s1 a = Inr s2" by simp
  then have "current_tool s2 = current_tool s"
    by (auto simp: press_release_def ebind_eq_Inr split: if_splits)
  moreover from s' have "current_tool s' = current_tool s2"
    by (auto simp: pen_mark_def ebind_eq_Inr split: if_splits)
  ultimately show ?thesis by simp
qed

lemma accurate_loop_prefix_tool:
  assumes "accurate_loop ev s (pre @ rest) = Inr s'"
    and "\<forall>h \<in> set (take (length pre) (selections ev (pre @ rest))). h = Inr None"
  shows "\<exists>s1. current_tool s1 = current_tool s \<and> accurate_loop ev s1 rest = Inr s'"
  using assms
proof (induction pre arbitrary: s)
  case Nil
  then show ?case by auto
next
  case (Cons a pre)
  from Cons.prems(1) obtain s1 where
    s1: "accurate_step ev s a (next_is_click (pre @ rest)) = Inr s1"
    and rest: "accurate_loop ev s1 (pre @ rest) = Inr s'"
    by (auto split: sum.splits)
  from Cons.prems(2) have sel: "select_tool ev a (next_is_click (pre @ rest)) = Inr None"
    and later: "\<forall>h \<in> set (take (length pre) (selections ev (pre @ rest))). h = Inr None"
    by simp_all
  from accurate_step_keeps_tool [OF s1 sel] have "current_tool s1 = current_tool s" .
  moreover from Cons.IH [OF rest later]
  obtain s2 where "current_tool s2 = current_tool s1" "accurate_loop ev s2 rest = Inr s'"
    by auto
  ultimately show ?case by auto
qed

lemma accurate_loop_segment:
  assumes "accurate_loop ev s (seg @ rest) = Inr s'" and "seg \<noteq> []"
    and "\<forall>b \<in> set seg. \<not> act_is b ''mouseUp''"
    and "\<forall>h \<in> set (take (length seg) (selections ev (seg @ rest))). h = Inr None"
    and "current_tool s = ''pen''" and "is_drawing s \<or> act_is (hd seg) ''mouseDown''"
    and "aget (last seg) ''x'' = Some (PNum x)" and "aget (last seg) ''y'' = Some (PNum y)"
    and "in_canvas ev (x - canvas_offset_x ev) (y - canvas_offset_y ev)"
  shows "\<exists>c. cell_of ZeroDivisionError ev (x - canvas_offset_x ev) (y - canvas_offset_y ev) = Inr c \<and>
             c \<in> grid s'"
  using assms
proof (induction seg arbitrary: s)
  case Nil
  then show ?case by simp
next
  case (Cons a seg)
  from Cons.prems(1) obtain s1 where
    s1: "accurate_step ev s a (next_is_click (seg @ rest)) = Inr s1"
    and rest: "accurate_loop ev s1 (seg @ rest) = Inr s'"
    by (auto split: sum.splits)
  from Cons.prems(4) have sel: "select_tool ev a (next_is_click (seg @ rest)) = Inr None"
    and later: "\<forall>h \<in> set (take (length seg) (selections ev (seg @ rest))). h = Inr None"
    by simp_all
  from Cons.prems have a: "\<not> act_is a ''mouseUp''"
    and s: "current_tool s = ''pen''" "is_drawing s \<or> act_is a ''mouseDown''"
    by simp_all
  note step = accurate_step_pen [OF s1 sel a s]
  show ?case
  proof (cases "seg = []")
    case True
    with Cons.prems step obtain c where
      c: "cell_of ZeroDivisionError ev (x - canvas_offset_x ev) (y - canvas_offset_y ev) = Inr c"
      "c \<in> grid s1" by auto
    from rest accurate_loop_grid have "grid s1 \<subseteq> grid s'" by blast
    with c show ?thesis by blast
  next
    case False
    from step have "current_tool s1 = ''pen''" "is_drawing s1" by simp_all
    with Cons.IH [OF rest False _ later] Cons.prems False show ?thesis by simp
  qed
qed

text \<open>
  C10. The loop starts with the tool \<^verbatim>\<open>"pen"\<close>. Take a log \<open>pre @ seg @ post\<close> whose part
  \<open>seg\<close> starts with a \<^verbatim>\<open>mouseDown\<close> and holds no \<^verbatim>\<open>mouseUp\<close>, and in which no action up
  to the end of \<open>seg\<close> selects a tool. If the last action of \<open>seg\<close> has numeric
  coordinates on the canvas, its cell is in the grid the loop returns, and the accurate
  coverage is positive.
\<close>

theorem default_tool_is_pen:
  assumes "coverage_grid ev (pre @ seg @ post) = Inr g"
    and "seg \<noteq> []" and "act_is (hd seg) ''mouseDown''"
    and "\<forall>b \<in> set seg. \<not> act_is b ''mouseUp''"
    and "\<forall>h \<in> set (take (length pre + length seg) (selections ev (pre @ seg @ post))).
           h = Inr None"
    and "aget (last seg) ''x'' = Some (PNum x)" and "aget (last seg) ''y'' = Some (PNum y)"
    and "in_canvas ev (x - canvas_offset_x ev) (y - canvas_offset_y ev)"
  shows "(\<exists>c. cell_of ZeroDivisionError ev (x - canvas_offset_x ev) (y - canvas_offset_y ev) = Inr c \<and>
              c \<in> g) \<and>
         (\<exists>coverage. estimate_canvas_coverage_accurate ev (pre @ seg @ post) = Inr coverage \<and>
              0 < coverage)"
proof -
  from assms(1) obtain s' where loop: "accurate_loop ev initial_state (pre @ seg @ post) = Inr s'"
    and g: "g = grid s'"
    by (auto simp: coverage_grid_def ebind_eq_Inr)
  from assms(5) have
    before: "\<forall>h \<in> set (take (length pre) (selections ev (pre @ seg @ post))). h = Inr None"
    and during: "\<forall>h \<in> set (take (length seg) (selections ev (seg @ post))). h = Inr None"
    by (simp_all add: take_selections_append)
  from accurate_loop_prefix_tool [OF loop before]
  obtain s1 where s1: "current_tool s1 = ''pen''" "accurate_loop ev s1 (seg @ post) = Inr s'"
    by (auto simp: initial_state_def)
  from accurate_loop_segment [OF s1(2) assms(2,4) during s1(1) _ assms(6,7,8)] assms(3)
  obtain c where
    c: "cell_of ZeroDivisionError ev (x - canvas_offset_x ev) (y - canvas_offset_y ev) = Inr c"
    "c \<in> grid s'" by auto
  from assms(1) have "finite g" by (rule coverage_grid_finite)
  with c g have "0 < card g" by (auto simp: card_gt_0_iff)
  then have positive: "0 < real (card g) / 400" by simp
  from assms(1) have "estimate_canvas_coverage_accurate ev (pre @ seg @ post) =
      Inr (real (card g) / 400)"
    by (simp add: estimate_canvas_coverage_accurate_def py_round_cells)
  with positive c g show ?thesis by blast
qed

theorem default_tool_is_pen_witness:
  "count_tool_changes example_layout
     [dict_items (moveTo 453 25), [(''action'', PStr ''click'')],
      dict_items (moveTo 590 420), [(''action'', PStr ''mouseDown'')],
      dict_items (moveTo 640 420), [(''action'', PStr ''mouseUp'')]] = Inr 0 \<and>
   (\<exists>coverage. estimate_canvas_coverage_accurate example_layout
      [dict_items (moveTo 453 25), [(''action'', PStr ''click'')],
       dict_items (moveTo 590 420), [(''action'', PStr ''mouseDown'')],
       dict_items (moveTo 640 420), [(''action'', PStr ''mouseUp'')]] = Inr coverage \<and>
      0 < coverage)"
proof -
  let ?pre = "[dict_items (moveTo 453 25), [(''action'', PStr ''click'')],
               dict_items (moveTo 590 420)]"
  let ?seg = "[[(''action'', PStr ''mouseDown'')], dict_items (moveTo 640 420)]"
  let ?post = "[[(''action'', PStr ''mouseUp'')]]"
  have "\<exists>g. coverage_grid example_layout (?pre @ ?seg @ ?post) = Inr g"
    by (simp add: example_defs eval_defs)
  then obtain g where g: "coverage_grid example_layout (?pre @ ?seg @ ?post) = Inr g" by blast
  have seg: "?seg \<noteq> []" "act_is (hd ?seg) ''mouseDown''"
    "\<forall>b \<in> set ?seg. \<not> act_is b ''mouseUp''"
    "\<forall>h \<in> set (take (length ?pre + length ?seg)
                  (selections example_layout (?pre @ ?seg @ ?post))). h = Inr None"
    "aget (last ?seg) ''x'' = Some (PNum 640)" "aget (last ?seg) ''y'' = Some (PNum 420)"
    "in_canvas example_layout (640 - canvas_offset_x example_layout)
       (420 - canvas_offset_y example_layout)"
    by (simp_all add: example_defs eval_defs)
  have tools: "count_tool_changes example_layout (?pre @ ?seg @ ?post) = Inr 0"
    by (simp add: example_defs eval_defs)
  from default_tool_is_pen [OF g seg] tools show ?thesis by simp
qed

section \<open>Inserting a point\<close>

text \<open>
  Whether the iteration on \<open>a\<close> in state \<open>s\<close> reads the last known position: a press
  without coordinates does, and so does a release without coordinates that draws a
  shape. \<open>fallback_free ev s post\<close> says that, running \<open>post\<close> from \<open>s\<close>, no iteration
  does so before the first action that carries coordinates.
\<close>

definition falls_back :: "drawing_state \<Rightarrow> action \<Rightarrow> bool" where
  "falls_back s a \<longleftrightarrow>
     \<not> has_xy a \<and>
     (act_is a ''mouseDown'' \<or>
      (act_is a ''mouseUp'' \<and> is_drawing s \<and> mouse_down_pos s \<noteq> None \<and>
       current_tool s \<in> set [''rectangle'', ''circle'', ''line'']))"

fun fallback_free :: "evaluator \<Rightarrow> drawing_state \<Rightarrow> action list \<Rightarrow> bool" where
  "fallback_free ev s [] = True"
| "fallback_free ev s (a # rest) =
     (has_xy a \<or>
      (\<not> falls_back s a \<and>
       (case accurate_step ev s a (next_is_click rest) of
          Inl e \<Rightarrow> True
        | Inr s' \<Rightarrow> fallback_free ev s' rest)))"

text \<open>A log on the example layout: a press at (395, 120) with the default pen, a release,
  a press without coordinates, a click on the rectangle button, a release without
  coordinates.\<close>

definition rectangle_log :: "action list" where
  "rectangle_log =
     [[(''action'', PStr ''mouseDown''), (''x'', PNum 395), (''y'', PNum 120)],
      [(''action'', PStr ''mouseUp'')],
      [(''action'', PStr ''mouseDown'')],
      [(''action'', PStr ''click''), (''x'', PNum 345), (''y'', PNum 25)],
      [(''action'', PStr ''mouseUp'')]]"

text \<open>States that agree but for the last known position and the grid.\<close>

definition grid_pos_below :: "drawing_state \<Rightarrow> drawing_state \<Rightarrow> bool" where
  "grid_pos_below s t \<longleftrightarrow>
     is_drawing t = is_drawing s \<and> current_tool t = current_tool s \<and>
     mouse_down_pos t = mouse_down_pos s \<and> grid s \<subseteq> grid t"

lemma accurate_step_last_pos:
  "has_xy a \<Longrightarrow> accurate_step ev (s\<lparr>last_pos := p\<rparr>) a n = accurate_step ev s a n"
  by (simp add: accurate_step_def)

lemma accurate_step_with_xy:
  assumes "grid_pos_below s t" "has_xy a" "accurate_step ev s a n = Inr s'"
  shows "\<exists>t'. accurate_step ev t a n = Inr t' \<and> grid_below s' t'"
proof -
  from assms(1) have "grid_below s (t\<lparr>last_pos := last_pos s\<rparr>)"
    by (simp add: grid_below_def grid_pos_below_def)
  from accurate_step_mono [OF this assms(3)] assms(2) show ?thesis
    by (simp add: accurate_step_last_pos)
qed

lemma accurate_step_without_xy:
  assumes below: "grid_pos_below s t" and a: "\<not> has_xy a" "\<not> falls_back s a"
    and step: "accurate_step ev s a n = Inr s'"
  shows "\<exists>t'. accurate_step ev t a n = Inr t' \<and> grid_pos_below s' t'"
proof -
  from step obtain h s2 where h: "select_tool ev a n = Inr h"
    and pr: "press_release ev
           (case h of Some tn \<Rightarrow>
              (if has_xy a then s\<lparr>last_pos := (get_none a ''x'', get_none a ''y'')\<rparr> else s)
                \<lparr>current_tool := tn\<rparr>
            | None \<Rightarrow> (if has_xy a then s\<lparr>last_pos := (get_none a ''x'', get_none a ''y'')\<rparr> else s))
           a = Inr s2"
    and s': "pen_mark ev s2 a = Inr s'"
    by (rule accurate_step_parts)
  from pr a(1) have
    s2: "press_release ev (case h of Some tn \<Rightarrow> s\<lparr>current_tool := tn\<rparr> | None \<Rightarrow> s) a = Inr s2"
    by (cases h) simp_all
  from s' a(1) have "s' = s2" by (simp add: pen_mark_def)
  let ?s = "case h of Some tn \<Rightarrow> s\<lparr>current_tool := tn\<rparr> | None \<Rightarrow> s"
  let ?t = "case h of Some tn \<Rightarrow> t\<lparr>current_tool := tn\<rparr> | None \<Rightarrow> t"
  have st: "grid_pos_below ?s ?t"
    using below by (auto simp: grid_pos_below_def split: option.splits)
  have up: "h = None" if "act_is a ''mouseUp''"
    using that h by (auto simp: select_tool_def act_is_def split: if_splits)
  have "\<exists>t2. press_release ev ?t a = Inr t2 \<and> grid_pos_below s2 t2"
  proof (cases "act_is a ''mouseUp''")
    case True
    with a have down: "\<not> act_is a ''mouseDown''"
      and ns: "\<not> (is_drawing s \<and> mouse_down_pos s \<noteq> None \<and>
              current_tool s \<in> set [''rectangle'', ''circle'', ''line''])"
      by (auto simp: falls_back_def)
    from ns below have nt: "\<not> (is_drawing t \<and> mouse_down_pos t \<noteq> None \<and>
              current_tool t \<in> set [''rectangle'', ''circle'', ''line''])"
      by (simp add: grid_pos_below_def)
    from True have none: "h = None" by (rule up)
    from s2 none True down ns have "s2 = s\<lparr>is_drawing := False, mouse_down_pos := None\<rparr>"
      by (auto simp: press_release_def split: if_splits)
    moreover from none True down nt have
      "press_release ev ?t a = Inr (t\<lparr>is_drawing := False, mouse_down_pos := None\<rparr>)"
      by (auto simp: press_release_def split: if_splits)
    ultimately show ?thesis using below by (simp add: grid_pos_below_def)
  next
    case False
    with a have "\<not> act_is a ''mouseDown''" by (simp add: falls_back_def)
    with False s2 st show ?thesis by (simp add: press_release_def)
  qed
  then obtain t2 where t2: "press_release ev ?t a = Inr t2" "grid_pos_below s2 t2" by blast
  from a(1) have "pen_mark ev t2 a = Inr t2" by (simp add: pen_mark_def)
  with h t2 a(1) \<open>s' = s2\<close> show ?thesis
    by (simp add: accurate_step_def)
qed

lemma accurate_loop_fallback_free:
  assumes "grid_pos_below s t" "fallback_free ev s post" "accurate_loop ev s post = Inr s'"
  shows "\<exists>t'. accurate_loop ev t post = Inr t' \<and> grid s' \<subseteq> grid t'"
  using assms
proof (induction post arbitrary: s t)
  case Nil
  then show ?case by (simp add: grid_pos_below_def)
next
  case (Cons a rest)
  from Cons.prems(3) obtain s1 where s1: "accurate_step ev s a (next_is_click rest) = Inr s1"
    and r: "accurate_loop ev s1 rest = Inr s'"
    by (auto split: sum.splits)
  show ?case
  proof (cases "has_xy a")
    case True
    from accurate_step_with_xy [OF Cons.prems(1) True s1] obtain t1 where
      t1: "accurate_step ev t a (next_is_click rest) = Inr t1" and b: "grid_below s1 t1" by blast
    from accurate_loop_mono [OF b r] obtain t' where
      "accurate_loop ev t1 rest = Inr t'" "grid_below s' t'" by blast
    with t1 show ?thesis by (auto simp: grid_below_def)
  next
    case False
    with Cons.prems(2) s1 have free: "\<not> falls_back s a" "fallback_free ev s1 rest"
      by simp_all
    from accurate_step_without_xy [OF Cons.prems(1) False free(1) s1] obtain t1 where
      t1: "accurate_step ev t a (next_is_click rest) = Inr t1" and b: "grid_pos_below s1 t1"
      by blast
    from Cons.IH [OF b free(2) r] t1 show ?thesis by simp
  qed
qed

text \<open>The iteration on an inserted \<^verbatim>\<open>moveTo\<close> with numeric coordinates that no click
  follows: it sets the last position and may mark a cell.\<close>

lemma accurate_step_inserted:
  assumes "canvas_width ev \<noteq> 0" "canvas_height ev \<noteq> 0"
  shows "\<exists>t. accurate_step ev s (dict_items (moveTo x y)) False = Inr t \<and> grid_pos_below s t"
proof -
  let ?m = "dict_items (moveTo x y)"
  let ?s1 = "s\<lparr>last_pos := (PNum x, PNum y)\<rparr>"
  obtain h where "first_tool_hit (PNum x) (PNum y) (tool_positions ev) = Inr h"
    using first_tool_hit_numeric by blast
  then have sel: "select_tool ev ?m False = Inr None"
    by (simp add: select_tool_def moveTo_def act_is_def aget_def get_zero_def)
  have pr: "press_release ev ?s1 ?m = Inr ?s1"
    by (simp add: press_release_def moveTo_def act_is_def aget_def)
  have xy: "has_xy ?m" "get_none ?m ''x'' = PNum x" "get_none ?m ''y'' = PNum y"
    by (simp_all add: has_xy_def moveTo_def aget_def get_none_def)
  have step: "accurate_step ev s ?m False = pen_mark ev ?s1 ?m"
    using sel pr xy by (simp add: accurate_step_def)
  have "\<exists>t. pen_mark ev ?s1 ?m = Inr t \<and> grid_pos_below s t"
    using assms xy
    by (auto simp: pen_mark_def canvas_point_def cell_of_def grid_pos_below_def)
  with step show ?thesis by simp
qed

text \<open>A log splits at any point that no click follows.\<close>

lemma accurate_loop_append:
  assumes "\<not> next_is_click post"
  shows "accurate_loop ev s (pre @ post) =
         ebind (accurate_loop ev s pre) (\<lambda>s1. accurate_loop ev s1 post)"
proof (induction pre arbitrary: s)
  case Nil
  show ?case by simp
next
  case (Cons a pre)
  have "next_is_click (pre @ post) = next_is_click pre"
    using assms by (cases pre) (simp_all add: next_is_click_def)
  with Cons.IH show ?case
    by (cases "accurate_step ev s a (next_is_click pre)") simp_all
qed

lemma not_next_is_click_moveTo: "\<not> next_is_click (dict_items (moveTo x y) # post)"
  by (simp add: next_is_click_def moveTo_def act_is_def aget_def)

text \<open>
  C6, as the code has it. On a layout with a canvas of positive size, take a log
  \<open>pre @ post\<close> and insert a \<^verbatim>\<open>moveTo\<close> with numeric coordinates between \<open>pre\<close> and \<open>post\<close>.
  If no click follows directly, and after the insertion point no press and no shape
  release falls back on the last known position before an action with coordinates
  replaces it, then the accurate coverage of the longer log is defined and not less
  than that of the log: the loop only ever adds cells to the grid.
\<close>

theorem insert_point_monotone:
  assumes "0 < canvas_width ev" and "0 < canvas_height ev"
    and "\<not> next_is_click post"
    and "accurate_loop ev initial_state pre = Inr s" and "fallback_free ev s post"
    and "estimate_canvas_coverage_accurate ev (pre @ post) = Inr c"
  shows "\<exists>c'. estimate_canvas_coverage_accurate ev (pre @ dict_items (moveTo x y) # post) = Inr c' \<and>
              c \<le> c'"
proof -
  let ?m = "dict_items (moveTo x y)"
  from assms(6) obtain s' where loop: "accurate_loop ev initial_state (pre @ post) = Inr s'"
    and c: "c = real (card (grid s')) / 400"
    by (auto simp: estimate_canvas_coverage_accurate_def coverage_grid_def ebind_eq_Inr
        py_round_cells)
  from loop assms(3,4) have post: "accurate_loop ev s post = Inr s'"
    by (simp add: accurate_loop_append)
  from assms(1,2) have size: "canvas_width ev \<noteq> 0" "canvas_height ev \<noteq> 0" by simp_all
  from accurate_step_inserted [OF size] obtain t where
    t: "accurate_step ev s ?m False = Inr t" and below: "grid_pos_below s t" by blast
  from accurate_loop_fallback_free [OF below assms(5) post] obtain t' where
    t': "accurate_loop ev t post = Inr t'" and sub: "grid s' \<subseteq> grid t'" by blast
  from t t' assms(3) have "accurate_loop ev s (?m # post) = Inr t'" by simp
  with assms(4) have new: "accurate_loop ev initial_state (pre @ ?m # post) = Inr t'"
    by (simp add: accurate_loop_append not_next_is_click_moveTo)
  from new accurate_loop_grid [of ev initial_state _ t'] have "finite (grid t')"
    by (simp add: initial_state_def)
  with sub have "card (grid s') \<le> card (grid t')" by (rule card_mono [rotated])
  then have "c \<le> real (card (grid t')) / 400" using c by simp
  moreover from new have
    "estimate_canvas_coverage_accurate ev (pre @ ?m # post) = Inr (real (card (grid t')) / 400)"
    by (simp add: estimate_canvas_coverage_accurate_def coverage_grid_def py_round_cells)
  ultimately show ?thesis by blast
qed

theorem insert_point_monotone_witness:
  "estimate_canvas_coverage_accurate example_layout
     [dict_items (moveTo 590 420), [(''action'', PStr ''mouseDown'')],
      dict_items (moveTo 640 420), [(''action'', PStr ''mouseUp'')]] = Inr (1 / 400) \<and>
   estimate_canvas_coverage_accurate example_layout
     [dict_items (moveTo 590 420), [(''action'', PStr ''mouseDown'')],
      dict_items (moveTo 640 420), dict_items (moveTo 665 495),
      [(''action'', PStr ''mouseUp'')]] = Inr (1 / 200)"
proof -
  let ?pre = "[dict_items (moveTo 590 420), [(''action'', PStr ''mouseDown'')],
               dict_items (moveTo 640 420)]"
  let ?post = "[[(''action'', PStr ''mouseUp'')]]"
  have old: "estimate_canvas_coverage_accurate example_layout (?pre @ ?post) = Inr (1 / 400)"
    by (simp add: example_defs eval_defs)
  have new: "estimate_canvas_coverage_accurate example_layout
      (?pre @ dict_items (moveTo 665 495) # ?post) = Inr (1 / 200)"
    by (simp add: example_defs eval_defs)
  have "\<exists>s. accurate_loop example_layout initial_state ?pre = Inr s \<and>
             fallback_free example_layout s ?post"
    by (simp add: example_defs eval_defs falls_back_def)
  then obtain s where s: "accurate_loop example_layout initial_state ?pre = Inr s"
    "fallback_free example_layout s ?post" by blast
  have hyps: "0 < canvas_width example_layout" "0 < canvas_height example_layout"
    "\<not> next_is_click ?post"
    by (simp_all add: example_defs next_is_click_def act_is_def aget_def)
  from insert_point_monotone [OF hyps s old, of 665 495] old new show ?thesis by simp
qed

text \<open>
  The claim as stated fails. In \<open>rectangle_log\<close> the first press opens a pen segment;
  the point (350, 75) is on the canvas. Inserted into that segment, it becomes the
  position the later press without coordinates falls back on, the rectangle drawn from
  there is smaller, and the coverage drops from 4 cells to 2.
\<close>

theorem insert_point_counterexample:
  "(\<exists>s. accurate_loop example_layout initial_state (take 1 rectangle_log) = Inr s \<and>
        is_drawing s \<and> current_tool s = ''pen'') \<and>
   in_canvas example_layout (350 - canvas_offset_x example_layout)
     (75 - canvas_offset_y example_layout) \<and>
   estimate_canvas_coverage_accurate example_layout rectangle_log = Inr (1 / 100) \<and>
   estimate_canvas_coverage_accurate example_layout
     (take 1 rectangle_log @ dict_items (moveTo 350 75) # drop 1 rectangle_log) = Inr (1 / 200)"
proof -
  have "(1, 6) \<in> {0..1::int} \<times> {5..6::int}" by simp
  then have "insert (1, 6) ({0..1::int} \<times> {5..6::int}) = {0..1} \<times> {5..6}"
    by (rule insert_absorb)
  then have "card (insert (1, 6) ({0..1::int} \<times> {5..6::int})) = 4"
    by (simp add: card_cartesian_product)
  then have old: "estimate_canvas_coverage_accurate example_layout rectangle_log = Inr (1 / 100)"
    by (simp add: rectangle_log_def example_defs eval_defs fill_shape_in_grid_def)
  have new: "estimate_canvas_coverage_accurate example_layout
     (take 1 rectangle_log @ dict_items (moveTo 350 75) # drop 1 rectangle_log) = Inr (1 / 200)"
    by (simp add: rectangle_log_def example_defs eval_defs fill_shape_in_grid_def)
  have seg: "\<exists>s. accurate_loop example_layout initial_state (take 1 rectangle_log) = Inr s \<and>
        is_drawing s \<and> current_tool s = ''pen''"
    by (simp add: rectangle_log_def example_defs eval_defs)
  have "in_canvas example_layout (350 - canvas_offset_x example_layout)
     (75 - canvas_offset_y example_layout)"
    by (simp add: in_canvas_def example_layout_def)
  with seg old new show ?thesis by blast
qed

end
